theory Spec2Isabelle
  imports Complex_Main "HOL-Library.AList" "HOL-Library.Sublist"
begin

section \<open>Python values\<close>

text \<open>
  A Python \<open>float\<close> is an IEEE double: a finite value, an infinity or not-a-number.
  A finite double is a rational number, held here as the \<open>real\<close> it denotes, so the
  comparisons of the source are exact in the model.
\<close>

datatype pyfloat = Fin real | PInf | NInf | NaN

text \<open>
  The objects a request payload holds: what \<open>json.loads\<close> produces (\<open>None\<close>, \<open>bool\<close>,
  \<open>int\<close>, \<open>float\<close>, \<open>str\<close>, \<open>list\<close>, \<open>dict\<close>) and what the validator stores back.
  A \<open>dict\<close> is an association list in insertion order with one entry per key.
  A \<open>str\<close> is a \<open>string\<close>: its characters are the code points below 256.
\<close>

datatype pyval =
    PNone
  | PBool bool
  | PInt int
  | PFloat pyfloat
  | PStr string
  | PList "pyval list"
  | PDict "(string \<times> pyval) list"

type_synonym dict = "(string \<times> pyval) list"

text \<open>
  Exceptions: the class and the message \<open>str(exc)\<close>. Each class derives from
  \<open>Exception\<close>; what does not (\<open>SystemExit\<close>, \<open>KeyboardInterrupt\<close>) is left out.
\<close>

datatype exn_class =
    ValueError
  | JSONDecodeError
  | TypeError
  | AttributeError
  | NameError
  | KeyError
  | ZeroDivisionError
  | OverflowError
  | SyntaxError
  | RuntimeError

datatype exn = Exn exn_class string

text \<open>\<open>except ValueError\<close> also catches the subclass \<open>json.JSONDecodeError\<close>.\<close>

fun is_ValueError :: "exn \<Rightarrow> bool" where
  "is_ValueError (Exn c m) = (c = ValueError \<or> c = JSONDecodeError)"

fun exn_str :: "exn \<Rightarrow> string" where
  "exn_str (Exn c m) = m"

subsection \<open>Comparisons of floats\<close>

text \<open>IEEE order: every comparison with not-a-number is false.\<close>

fun fl_le :: "pyfloat \<Rightarrow> pyfloat \<Rightarrow> bool" where
  "fl_le NaN b = False"
| "fl_le a NaN = False"
| "fl_le NInf b = True"
| "fl_le a PInf = True"
| "fl_le (Fin a) (Fin b) = (a \<le> b)"
| "fl_le PInf b = False"
| "fl_le a NInf = False"

definition fl_ge :: "pyfloat \<Rightarrow> pyfloat \<Rightarrow> bool" where
  "fl_ge a b = fl_le b a"

fun isfinite :: "pyfloat \<Rightarrow> bool" where
  "isfinite (Fin r) = True"
| "isfinite PInf = False"
| "isfinite NInf = False"
| "isfinite NaN = False"

subsection \<open>The library\<close>

text \<open>
  What the source calls and does not define comes in as a parameter: the functions of
  the Python runtime, of \<open>json\<close>, \<open>numpy\<close> and \<open>matplotlib\<close>. The syntax trees and values of
  expressions are declared first.
\<close>

datatype ndarray = NdArray (nd_shape: "nat list") (nd_data: "pyfloat list")

text \<open>
  The values of an evaluated expression: numbers, \<open>numpy\<close> arrays, and every other object
  (the module \<open>np\<close>, its functions, whatever a call returns), known by a tag only.
\<close>

datatype evalue = EInt int | EFloat pyfloat | EArray ndarray | EObj string

text \<open>
  A namespace binds names to values. An evaluation has three of them: the global
  namespace, the builtins and the local namespace.
\<close>

type_synonym namespace = "(string \<times> evalue) list"

type_synonym scopes = "namespace \<times> namespace \<times> namespace"

datatype operator = Add | Sub | Mult | Div | Pow | Mod | FloorDiv

text \<open>
  The syntax trees of \<open>ast\<close>. The model evaluates seven kinds of node itself. Every
  other expression (another unary operator, a boolean operator, a comparison, a
  subscript, a call with keyword or starred arguments, a \<open>lambda\<close>, a comprehension, an
  assignment expression, ...) is a node \<open>Other\<close> that holds its source text: the
  library evaluates it, and the model knows nothing of the names inside it.
\<close>

datatype expr =
    Constant evalue
  | Name string
  | UnaryOp_USub expr
  | BinOp expr operator expr
  | Call expr "expr list"
  | Attribute expr string
  | IfExp expr expr expr
  | Other string

text \<open>
  What the library does for an evaluation runs code that can reach the frame of the
  evaluation: a call, an attribute, an operator, a truth value and a node \<open>Other\<close> take
  the namespaces and return them, with names bound or not as that code has left them
  (an assignment expression binds a name; so can a function that reaches the frame).
  \<open>eval_effect\<close> is what the evaluation of an expression over the sample points does to
  the \<open>dict\<close> objects of the process, given from references to contents: an expression
  can call the methods of every object it reaches.
\<close>

record pylib =
  json_loads :: "string \<Rightarrow> exn + pyval"
  float_of_str :: "string \<Rightarrow> pyfloat option"
  int_of_str :: "string \<Rightarrow> int option"
  float_of_int :: "int \<Rightarrow> pyfloat option"
  py_repr :: "pyval \<Rightarrow> string"
  py_compile :: "string \<Rightarrow> exn + expr"
  py_call :: "evalue \<Rightarrow> evalue list \<Rightarrow> scopes \<Rightarrow> (exn + evalue) \<times> scopes"
  py_getattr :: "evalue \<Rightarrow> string \<Rightarrow> scopes \<Rightarrow> (exn + evalue) \<times> scopes"
  py_operator :: "operator \<Rightarrow> evalue \<Rightarrow> evalue \<Rightarrow> scopes \<Rightarrow> (exn + evalue) \<times> scopes"
  py_negative :: "evalue \<Rightarrow> scopes \<Rightarrow> (exn + evalue) \<times> scopes"
  py_truth :: "evalue \<Rightarrow> scopes \<Rightarrow> (exn + bool) \<times> scopes"
  py_eval_other :: "string \<Rightarrow> scopes \<Rightarrow> (exn + evalue) \<times> scopes"
  eval_effect :: "string \<Rightarrow> ndarray \<Rightarrow> (nat \<Rightarrow> dict) \<Rightarrow> (nat \<Rightarrow> dict)"
  np_array_float :: "evalue \<Rightarrow> exn + ndarray"
  np_linspace :: "pyval \<Rightarrow> pyval \<Rightarrow> pyval \<Rightarrow> exn + ndarray"
  plot_png :: "ndarray \<Rightarrow> ndarray \<Rightarrow> dict \<Rightarrow> exn + string"

subsection \<open>Coercions\<close>

text \<open>
  \<open>float(v)\<close>: \<open>None\<close> stands for any exception (each caller catches them all). An \<open>int\<close>
  up to \<open>2 ^ 53\<close> in size converts exactly; a larger one is rounded, or overflows, by
  the runtime.
\<close>

fun py_float :: "pylib \<Rightarrow> pyval \<Rightarrow> pyfloat option" where
  "py_float L PNone = None"
| "py_float L (PBool b) = Some (Fin (if b then 1 else 0))"
| "py_float L (PInt i) =
     (if \<bar>i\<bar> \<le> 2 ^ 53 then Some (Fin (real_of_int i)) else float_of_int L i)"
| "py_float L (PFloat f) = Some f"
| "py_float L (PStr s) = float_of_str L s"
| "py_float L (PList l) = None"
| "py_float L (PDict d) = None"

text \<open>\<open>int(v)\<close>: a float is truncated toward zero; not-a-number and the infinities raise.\<close>

definition trunc :: "real \<Rightarrow> int" where
  "trunc r = (if 0 \<le> r then \<lfloor>r\<rfloor> else \<lceil>r\<rceil>)"

fun py_int :: "pylib \<Rightarrow> pyval \<Rightarrow> int option" where
  "py_int L PNone = None"
| "py_int L (PBool b) = Some (if b then 1 else 0)"
| "py_int L (PInt i) = Some i"
| "py_int L (PFloat (Fin r)) = Some (trunc r)"
| "py_int L (PFloat PInf) = None"
| "py_int L (PFloat NInf) = None"
| "py_int L (PFloat NaN) = None"
| "py_int L (PStr s) = int_of_str L s"
| "py_int L (PList l) = None"
| "py_int L (PDict d) = None"

text \<open>\<open>str(v)\<close>: a string is itself; anything else is printed by the runtime.\<close>

fun py_str :: "pylib \<Rightarrow> pyval \<Rightarrow> string" where
  "py_str L (PStr s) = s"
| "py_str L v = py_repr L v"

text \<open>Truth value, as \<open>bool(v)\<close> and the operator \<open>or\<close> take it.\<close>

fun truthy :: "pyval \<Rightarrow> bool" where
  "truthy PNone = False"
| "truthy (PBool b) = b"
| "truthy (PInt i) = (i \<noteq> 0)"
| "truthy (PFloat f) = (f \<noteq> Fin 0)"
| "truthy (PStr s) = (s \<noteq> [])"
| "truthy (PList l) = (l \<noteq> [])"
| "truthy (PDict d) = (d \<noteq> [])"

subsection \<open>Strings\<close>

text \<open>
  The characters \<open>str.strip()\<close> removes (\<open>str.isspace\<close>), among the code points below
  256: tab to carriage return, the four separators \<open>0x1C\<close> to \<open>0x1F\<close>, the space,
  \<open>0x85\<close> and the no-break space.
\<close>

definition is_space :: "char \<Rightarrow> bool" where
  "is_space c = (let n = of_char c :: nat in
     (9 \<le> n \<and> n \<le> 13) \<or> (28 \<le> n \<and> n \<le> 32) \<or> n = 133 \<or> n = 160)"

definition strip :: "string \<Rightarrow> string" where
  "strip s = rev (dropWhile is_space (rev (dropWhile is_space s)))"

text \<open>
  The characters \<open>\w\<close> matches in a \<open>str\<close> pattern: the underscore and the alphanumeric
  characters (\<open>str.isalnum\<close>), among the code points below 256.
\<close>

definition is_word :: "char \<Rightarrow> bool" where
  "is_word c = (let n = of_char c :: nat in
     (48 \<le> n \<and> n \<le> 57) \<or> (65 \<le> n \<and> n \<le> 90) \<or> n = 95 \<or> (97 \<le> n \<and> n \<le> 122)
     \<or> n = 170 \<or> n = 178 \<or> n = 179 \<or> n = 181 \<or> n = 185 \<or> n = 186
     \<or> (188 \<le> n \<and> n \<le> 190) \<or> (192 \<le> n \<and> n \<le> 214) \<or> (216 \<le> n \<and> n \<le> 246)
     \<or> 248 \<le> n)"

text \<open>
  \<open>re.search(r"__|import|\bexec\b|\beval\b|\bos\b|\bsys\b", expression)\<close> as a truth
  value. \<open>word_here prev_word w s\<close>: the word \<open>w\<close> starts the rest \<open>s\<close> of the input, the
  character before it is not a word character (\<open>prev_word\<close> tells whether it is), and
  neither is the character after it. The ends of the input count as no word character.
\<close>

definition word_here :: "bool \<Rightarrow> string \<Rightarrow> string \<Rightarrow> bool" where
  "word_here prev_word w s =
     (\<not> prev_word \<and> prefix w s \<and>
      (case drop (length w) s of [] \<Rightarrow> True | c # cs \<Rightarrow> \<not> is_word c))"

definition match_here :: "bool \<Rightarrow> string \<Rightarrow> bool" where
  "match_here prev_word s =
     (prefix ''__'' s \<or> prefix ''import'' s \<or>
      word_here prev_word ''exec'' s \<or> word_here prev_word ''eval'' s \<or>
      word_here prev_word ''os'' s \<or> word_here prev_word ''sys'' s)"

fun search_from :: "bool \<Rightarrow> string \<Rightarrow> bool" where
  "search_from prev_word [] = False"
| "search_from prev_word (c # cs) =
     (match_here prev_word (c # cs) \<or> search_from (is_word c) cs)"

definition re_search_denylist :: "string \<Rightarrow> bool" where
  "re_search_denylist s = search_from False s"

section \<open>The module's constants\<close>

text \<open>\<open>math.pi\<close> and \<open>math.e\<close> are doubles: these are their exact values.\<close>

definition math_pi :: real where
  "math_pi = 884279719003555 / 281474976710656"

definition math_e :: real where
  "math_e = 6121026514868073 / 2251799813685248"

text \<open>
  The doubles that the decimal numerals \<open>0.1\<close>, \<open>0.09\<close>, \<open>10.01\<close> and \<open>2.9\<close> denote, in
  the source and in a JSON body.
\<close>

definition double_0_1 :: real where
  "double_0_1 = 3602879701896397 / 36028797018963968"

definition double_0_09 :: real where
  "double_0_09 = 3242591731706757 / 36028797018963968"

definition double_10_01 :: real where
  "double_10_01 = 5635129033747333 / 562949953421312"

definition double_2_9 :: real where
  "double_2_9 = 6530219459687219 / 2251799813685248"

definition title_default :: string where
  "title_default = ''Courbe param'' @ [char_of (233::nat)] @ ''trable''"

definition DEFAULT_PAYLOAD :: dict where
  "DEFAULT_PAYLOAD =
    [(''expression'', PStr ''sin(2 * pi * x)''),
     (''xMin'', PFloat (Fin (- 2 * math_pi))),
     (''xMax'', PFloat (Fin (2 * math_pi))),
     (''samples'', PInt 500),
     (''title'', PStr title_default),
     (''xLabel'', PStr ''x''),
     (''yLabel'', PStr ''f(x)''),
     (''color'', PStr ''#2563eb''),
     (''lineWidth'', PFloat (Fin 2)),
     (''grid'', PBool True),
     (''marker'', PStr '''')]"

text \<open>The messages of the \<open>ValueError\<close>s the module raises.\<close>

definition msg_json :: string where
  "msg_json = ''Requ'' @ [char_of (234::nat)] @ ''te illisible (JSON invalide): ''"

definition msg_interval :: string where
  "msg_interval = ''Intervalle invalide: xMin doit '' @ [char_of (234::nat)] @ ''tre < xMax''"

definition msg_samples :: string where
  "msg_samples = ''Le nombre d'' @ [CHR 0x27] @ [char_of (233::nat)] @
     ''chantillons doit '' @ [char_of (234::nat)] @ ''tre entre 2 et 10000''"

definition msg_empty :: string where
  "msg_empty = ''L'' @ [CHR 0x27] @ ''expression ne peut pas '' @ [char_of (234::nat)] @
     ''tre vide.''"

definition msg_denied :: string where
  "msg_denied = ''L'' @ [CHR 0x27] @ ''expression contient des '' @ [char_of (233::nat)] @
     ''l'' @ [char_of (233::nat)] @ ''ments non autoris'' @ [char_of (233::nat)] @ ''s.''"

definition msg_line_width :: string where
  "msg_line_width = ''L'' @ [CHR 0x27] @ [char_of (233::nat)] @
     ''paisseur de ligne doit '' @ [char_of (234::nat)] @ ''tre entre 0.1 et 10.''"

definition msg_eval :: string where
  "msg_eval = ''Impossible d'' @ [CHR 0x27] @ [char_of (233::nat)] @
     ''valuer l'' @ [CHR 0x27] @ ''expression: ''"

definition msg_shape :: string where
  "msg_shape = ''L'' @ [CHR 0x27] @ ''expression doit produire une valeur pour chaque point x.''"

definition msg_nonfinite :: string where
  "msg_nonfinite = ''L'' @ [CHR 0x27] @ ''expression g'' @ [char_of (233::nat)] @ ''n'' @
     [char_of (232::nat)] @ ''re des valeurs non finies.''"

section \<open>Dictionaries\<close>

text \<open>\<open>d[k]\<close> raises \<open>KeyError\<close> for a missing key; its message is the key in quotes.\<close>

definition getitem :: "dict \<Rightarrow> string \<Rightarrow> exn + pyval" where
  "getitem d k =
     (case map_of d k of
        None \<Rightarrow> Inl (Exn KeyError ([CHR 0x27] @ k @ [CHR 0x27]))
      | Some v \<Rightarrow> Inr v)"

text \<open>\<open>d.get(k, default)\<close>; \<open>d.get(k)\<close> is \<open>dict_get d k PNone\<close>.\<close>

definition dict_get :: "dict \<Rightarrow> string \<Rightarrow> pyval \<Rightarrow> pyval" where
  "dict_get d k dflt = (case map_of d k of None \<Rightarrow> dflt | Some v \<Rightarrow> v)"

text \<open>
  \<open>d.update(other)\<close> stores the items of \<open>other\<close> in their order: the value of a key that
  is present is replaced where it stands, a new key goes to the end.
\<close>

definition dict_update :: "dict \<Rightarrow> dict \<Rightarrow> dict" where
  "dict_update d other = foldl (\<lambda>acc (k, v). AList.update k v acc) d other"

fun type_name :: "pyval \<Rightarrow> string" where
  "type_name PNone = ''NoneType''"
| "type_name (PBool b) = ''bool''"
| "type_name (PInt i) = ''int''"
| "type_name (PFloat f) = ''float''"
| "type_name (PStr s) = ''str''"
| "type_name (PList l) = ''list''"
| "type_name (PDict d) = ''dict''"

text \<open>
  \<open>data.items()\<close>: only a \<open>dict\<close> has the method. For any other object the
  \<open>AttributeError\<close> says \<^verbatim>\<open>'int' object has no attribute 'items'\<close>, with the name of
  the type of the object.
\<close>

definition msg_no_items :: "string \<Rightarrow> string" where
  "msg_no_items t =
     [CHR 0x27] @ t @ [CHR 0x27] @ '' object has no attribute '' @
     [CHR 0x27] @ ''items'' @ [CHR 0x27]"

fun dict_items :: "pyval \<Rightarrow> exn + dict" where
  "dict_items (PDict d) = Inr d"
| "dict_items v = Inl (Exn AttributeError (msg_no_items (type_name v)))"

section \<open>The payload normalizer\<close>

text \<open>
  \<open>parse_payload\<close>, with \<open>D\<close> the contents of the object \<open>DEFAULT_PAYLOAD\<close> when it is
  called. The result is the contents of a new \<open>dict\<close>. Only a \<open>JSONDecodeError\<close> of
  \<open>json.loads\<close> is caught and raised again as a \<open>ValueError\<close>.
\<close>

definition parse_payload :: "pylib \<Rightarrow> dict \<Rightarrow> string \<Rightarrow> exn + dict" where
  "parse_payload L D body =
     (if body = [] then Inr D
      else
        (case json_loads L body of
           Inl (Exn c m) \<Rightarrow>
             (if c = JSONDecodeError then Inl (Exn ValueError (msg_json @ m))
              else Inl (Exn c m))
         | Inr data \<Rightarrow>
             (case dict_items data of
                Inl e \<Rightarrow> Inl e
              | Inr kvs \<Rightarrow> Inr (dict_update D (filter (\<lambda>(k, v). v \<noteq> PNone) kvs)))))"

section \<open>The validator\<close>

text \<open>
  The three \<open>try\<close> blocks of \<open>validate_payload\<close>. Each catches every exception and raises
  its own \<open>ValueError\<close>: \<open>None\<close> is that \<open>except\<close> branch.
\<close>

definition try_interval :: "pylib \<Rightarrow> dict \<Rightarrow> (pyfloat \<times> pyfloat) option" where
  "try_interval L payload =
     (case map_of payload ''xMin'' of None \<Rightarrow> None | Some a \<Rightarrow>
     (case py_float L a of None \<Rightarrow> None | Some x_min \<Rightarrow>
     (case map_of payload ''xMax'' of None \<Rightarrow> None | Some b \<Rightarrow>
     (case py_float L b of None \<Rightarrow> None | Some x_max \<Rightarrow>
        (if fl_ge x_min x_max then None else Some (x_min, x_max))))))"

definition try_samples :: "pylib \<Rightarrow> dict \<Rightarrow> int option" where
  "try_samples L payload =
     (case map_of payload ''samples'' of None \<Rightarrow> None | Some a \<Rightarrow>
     (case py_int L a of None \<Rightarrow> None | Some samples \<Rightarrow>
        (if \<not> (2 \<le> samples \<and> samples \<le> 10000) then None else Some samples)))"

definition try_line_width :: "pylib \<Rightarrow> dict \<Rightarrow> pyfloat option" where
  "try_line_width L payload =
     (case map_of payload ''lineWidth'' of None \<Rightarrow> None | Some a \<Rightarrow>
     (case py_float L a of None \<Rightarrow> None | Some line_width \<Rightarrow>
        (if \<not> (fl_le (Fin double_0_1) line_width \<and> fl_le line_width (Fin 10)) then None
         else Some line_width)))"

text \<open>\<open>str(payload.get(k, "")).strip() or DEFAULT_PAYLOAD[k]\<close>, for the three display texts.\<close>

definition display_text :: "pylib \<Rightarrow> dict \<Rightarrow> dict \<Rightarrow> string \<Rightarrow> exn + pyval" where
  "display_text L D payload k =
     (let t = strip (py_str L (dict_get payload k (PStr ''''))) in
      if t \<noteq> [] then Inr (PStr t) else getitem D k)"

text \<open>\<open>str(payload.get("color") or DEFAULT_PAYLOAD["color"])\<close>.\<close>

definition color_text :: "pylib \<Rightarrow> dict \<Rightarrow> dict \<Rightarrow> exn + pyval" where
  "color_text L D payload =
     (let v = dict_get payload ''color'' PNone in
      if truthy v then Inr (PStr (py_str L v))
      else (case getitem D ''color'' of
              Inl e \<Rightarrow> Inl e
            | Inr d \<Rightarrow> Inr (PStr (py_str L d))))"

text \<open>\<open>str(payload.get("marker") or "")\<close>.\<close>

definition marker_text :: "pylib \<Rightarrow> dict \<Rightarrow> pyval" where
  "marker_text L payload =
     (let v = dict_get payload ''marker'' PNone in
      PStr (py_str L (if truthy v then v else PStr '''')))"

text \<open>
  \<open>validate_payload\<close> assigns to the \<open>dict\<close> it is given. \<open>validate_payload_st L D payload\<close>
  is the pair of the contents of that object when the call ends and of the exception
  raised, if any; \<open>D\<close> is the contents of \<open>DEFAULT_PAYLOAD\<close>. The four checks before the
  first assignment leave the object as it was; a failure after it leaves the
  assignments made so far.
\<close>

definition validate_payload_st :: "pylib \<Rightarrow> dict \<Rightarrow> dict \<Rightarrow> dict \<times> exn option" where
  "validate_payload_st L D payload =
    (case try_interval L payload of
       None \<Rightarrow> (payload, Some (Exn ValueError msg_interval))
     | Some (x_min, x_max) \<Rightarrow>
    (case try_samples L payload of
       None \<Rightarrow> (payload, Some (Exn ValueError msg_samples))
     | Some samples \<Rightarrow>
    (case getitem payload ''expression'' of
       Inl e \<Rightarrow> (payload, Some e)
     | Inr ev \<Rightarrow>
    (let expression = strip (py_str L ev) in
     if expression = [] then (payload, Some (Exn ValueError msg_empty))
     else if re_search_denylist expression then (payload, Some (Exn ValueError msg_denied))
     else
      (let p1 = AList.update ''xMin'' (PFloat x_min) payload;
           p2 = AList.update ''xMax'' (PFloat x_max) p1;
           p3 = AList.update ''samples'' (PInt samples) p2;
           p4 = AList.update ''expression'' (PStr expression) p3 in
       (case display_text L D p4 ''title'' of
          Inl e \<Rightarrow> (p4, Some e)
        | Inr title \<Rightarrow>
       (let p5 = AList.update ''title'' title p4 in
       (case display_text L D p5 ''xLabel'' of
          Inl e \<Rightarrow> (p5, Some e)
        | Inr x_label \<Rightarrow>
       (let p6 = AList.update ''xLabel'' x_label p5 in
       (case display_text L D p6 ''yLabel'' of
          Inl e \<Rightarrow> (p6, Some e)
        | Inr y_label \<Rightarrow>
       (let p7 = AList.update ''yLabel'' y_label p6 in
       (case color_text L D p7 of
          Inl e \<Rightarrow> (p7, Some e)
        | Inr color \<Rightarrow>
       (let p8 = AList.update ''color'' color p7;
            p9 = AList.update ''marker'' (marker_text L p8) p8 in
       (case try_line_width L p9 of
          None \<Rightarrow> (p9, Some (Exn ValueError msg_line_width))
        | Some line_width \<Rightarrow>
       (let p10 = AList.update ''lineWidth'' (PFloat line_width) p9 in
       (case getitem D ''grid'' of
          Inl e \<Rightarrow> (p10, Some e)
        | Inr grid_default \<Rightarrow>
            (AList.update ''grid'' (PBool (truthy (dict_get p10 ''grid'' grid_default))) p10,
             None)))))))))))))))))"

text \<open>What the call returns: the object itself, or the exception.\<close>

definition validate_payload :: "pylib \<Rightarrow> dict \<Rightarrow> dict \<Rightarrow> exn + dict" where
  "validate_payload L D payload =
     (case validate_payload_st L D payload of
        (p, None) \<Rightarrow> Inr p
      | (p, Some e) \<Rightarrow> Inl e)"

section \<open>The expression evaluator\<close>

subsection \<open>Arithmetic\<close>

text \<open>
  Float arithmetic with the special values of IEEE. On finite values it is the
  arithmetic of the reals: rounding, overflow to an infinity and the sign of zero are
  not modelled.
\<close>

fun fl_neg :: "pyfloat \<Rightarrow> pyfloat" where
  "fl_neg (Fin a) = Fin (- a)"
| "fl_neg PInf = NInf"
| "fl_neg NInf = PInf"
| "fl_neg NaN = NaN"

fun fl_add :: "pyfloat \<Rightarrow> pyfloat \<Rightarrow> pyfloat" where
  "fl_add NaN b = NaN"
| "fl_add a NaN = NaN"
| "fl_add (Fin a) (Fin b) = Fin (a + b)"
| "fl_add PInf NInf = NaN"
| "fl_add NInf PInf = NaN"
| "fl_add PInf b = PInf"
| "fl_add NInf b = NInf"
| "fl_add a PInf = PInf"
| "fl_add a NInf = NInf"

definition fl_sub :: "pyfloat \<Rightarrow> pyfloat \<Rightarrow> pyfloat" where
  "fl_sub a b = fl_add a (fl_neg b)"

text \<open>The infinity with the sign of \<open>s\<close>; not-a-number when \<open>s\<close> is zero.\<close>

definition signed_inf :: "real \<Rightarrow> pyfloat" where
  "signed_inf s = (if s = 0 then NaN else if 0 < s then PInf else NInf)"

fun fl_mul :: "pyfloat \<Rightarrow> pyfloat \<Rightarrow> pyfloat" where
  "fl_mul NaN b = NaN"
| "fl_mul a NaN = NaN"
| "fl_mul (Fin a) (Fin b) = Fin (a * b)"
| "fl_mul (Fin a) PInf = signed_inf a"
| "fl_mul (Fin a) NInf = signed_inf (- a)"
| "fl_mul PInf (Fin b) = signed_inf b"
| "fl_mul NInf (Fin b) = signed_inf (- b)"
| "fl_mul PInf PInf = PInf"
| "fl_mul NInf NInf = PInf"
| "fl_mul PInf NInf = NInf"
| "fl_mul NInf PInf = NInf"

text \<open>
  Division as \<open>numpy\<close> does it: dividing by zero gives an infinity, or not-a-number
  for \<open>0 / 0\<close>, and raises nothing.
\<close>

fun fl_div :: "pyfloat \<Rightarrow> pyfloat \<Rightarrow> pyfloat" where
  "fl_div NaN b = NaN"
| "fl_div a NaN = NaN"
| "fl_div (Fin a) (Fin b) = (if b = 0 then signed_inf a else Fin (a / b))"
| "fl_div (Fin a) PInf = Fin 0"
| "fl_div (Fin a) NInf = Fin 0"
| "fl_div PInf (Fin b) = (if 0 \<le> b then PInf else NInf)"
| "fl_div NInf (Fin b) = (if 0 \<le> b then NInf else PInf)"
| "fl_div PInf b = NaN"
| "fl_div NInf b = NaN"

text \<open>The four operators the model computes itself, on floats.\<close>

fun fl_op :: "operator \<Rightarrow> (pyfloat \<Rightarrow> pyfloat \<Rightarrow> pyfloat) option" where
  "fl_op Add = Some fl_add"
| "fl_op Sub = Some fl_sub"
| "fl_op Mult = Some fl_mul"
| "fl_op Div = Some fl_div"
| "fl_op Pow = None"
| "fl_op Mod = None"
| "fl_op FloorDiv = None"

text \<open>
  A binary operator of Python. On two \<open>int\<close>s the result is exact, and \<open>/\<close> gives a
  float; on Python numbers a zero divisor raises \<open>ZeroDivisionError\<close>; with an array
  the operator works element by element. The other operators, arrays of different
  shapes and other objects are left to the runtime. What the model computes itself
  leaves the namespaces \<open>s\<close> as they are.
\<close>

fun py_binop ::
    "pylib \<Rightarrow> operator \<Rightarrow> evalue \<Rightarrow> evalue \<Rightarrow> scopes \<Rightarrow> (exn + evalue) \<times> scopes" where
  "py_binop L Add (EInt a) (EInt b) s = (Inr (EInt (a + b)), s)"
| "py_binop L Sub (EInt a) (EInt b) s = (Inr (EInt (a - b)), s)"
| "py_binop L Mult (EInt a) (EInt b) s = (Inr (EInt (a * b)), s)"
| "py_binop L Div (EInt a) (EInt b) s =
     (if b = 0 then (Inl (Exn ZeroDivisionError ''division by zero''), s)
      else (Inr (EFloat (Fin (real_of_int a / real_of_int b))), s))"
| "py_binop L Div (EInt a) (EFloat b) s =
     (if b = Fin 0 then (Inl (Exn ZeroDivisionError ''float division by zero''), s)
      else (Inr (EFloat (fl_div (Fin (real_of_int a)) b)), s))"
| "py_binop L Div (EFloat a) (EInt b) s =
     (if b = 0 then (Inl (Exn ZeroDivisionError ''float division by zero''), s)
      else (Inr (EFloat (fl_div a (Fin (real_of_int b)))), s))"
| "py_binop L Div (EFloat a) (EFloat b) s =
     (if b = Fin 0 then (Inl (Exn ZeroDivisionError ''float division by zero''), s)
      else (Inr (EFloat (fl_div a b)), s))"
| "py_binop L op (EInt a) (EFloat b) s =
     (case fl_op op of
        None \<Rightarrow> py_operator L op (EInt a) (EFloat b) s
      | Some f \<Rightarrow> (Inr (EFloat (f (Fin (real_of_int a)) b)), s))"
| "py_binop L op (EFloat a) (EInt b) s =
     (case fl_op op of
        None \<Rightarrow> py_operator L op (EFloat a) (EInt b) s
      | Some f \<Rightarrow> (Inr (EFloat (f a (Fin (real_of_int b)))), s))"
| "py_binop L op (EFloat a) (EFloat b) s =
     (case fl_op op of
        None \<Rightarrow> py_operator L op (EFloat a) (EFloat b) s
      | Some f \<Rightarrow> (Inr (EFloat (f a b)), s))"
| "py_binop L op (EArray a) (EInt b) s =
     (case fl_op op of
        None \<Rightarrow> py_operator L op (EArray a) (EInt b) s
      | Some f \<Rightarrow>
          (Inr (EArray (NdArray (nd_shape a) (map (\<lambda>v. f v (Fin (real_of_int b))) (nd_data a)))),
           s))"
| "py_binop L op (EArray a) (EFloat b) s =
     (case fl_op op of
        None \<Rightarrow> py_operator L op (EArray a) (EFloat b) s
      | Some f \<Rightarrow> (Inr (EArray (NdArray (nd_shape a) (map (\<lambda>v. f v b) (nd_data a)))), s))"
| "py_binop L op (EInt a) (EArray b) s =
     (case fl_op op of
        None \<Rightarrow> py_operator L op (EInt a) (EArray b) s
      | Some f \<Rightarrow>
          (Inr (EArray (NdArray (nd_shape b) (map (\<lambda>v. f (Fin (real_of_int a)) v) (nd_data b)))),
           s))"
| "py_binop L op (EFloat a) (EArray b) s =
     (case fl_op op of
        None \<Rightarrow> py_operator L op (EFloat a) (EArray b) s
      | Some f \<Rightarrow> (Inr (EArray (NdArray (nd_shape b) (map (\<lambda>v. f a v) (nd_data b)))), s))"
| "py_binop L op (EArray a) (EArray b) s =
     (case fl_op op of
        None \<Rightarrow> py_operator L op (EArray a) (EArray b) s
      | Some f \<Rightarrow>
          (if nd_shape a = nd_shape b \<and> length (nd_data a) = length (nd_data b)
           then
             (Inr (EArray (NdArray (nd_shape a)
                (map (\<lambda>(v, w). f v w) (zip (nd_data a) (nd_data b))))),
              s)
           else py_operator L op (EArray a) (EArray b) s))"
| "py_binop L op a b s = py_operator L op a b s"

fun py_usub :: "pylib \<Rightarrow> evalue \<Rightarrow> scopes \<Rightarrow> (exn + evalue) \<times> scopes" where
  "py_usub L (EInt a) s = (Inr (EInt (- a)), s)"
| "py_usub L (EFloat a) s = (Inr (EFloat (fl_neg a)), s)"
| "py_usub L (EArray a) s = (Inr (EArray (NdArray (nd_shape a) (map fl_neg (nd_data a)))), s)"
| "py_usub L v s = py_negative L v s"

fun py_bool :: "pylib \<Rightarrow> evalue \<Rightarrow> scopes \<Rightarrow> (exn + bool) \<times> scopes" where
  "py_bool L (EInt a) s = (Inr (a \<noteq> 0), s)"
| "py_bool L (EFloat a) s = (Inr (a \<noteq> Fin 0), s)"
| "py_bool L v s = py_truth L v s"

subsection \<open>Names and evaluation\<close>

definition SAFE_FUNCTIONS :: namespace where
  "SAFE_FUNCTIONS =
    [(''np'', EObj ''np''),
     (''sin'', EObj ''np.sin''),
     (''cos'', EObj ''np.cos''),
     (''tan'', EObj ''np.tan''),
     (''arcsin'', EObj ''np.arcsin''),
     (''arccos'', EObj ''np.arccos''),
     (''arctan'', EObj ''np.arctan''),
     (''sinh'', EObj ''np.sinh''),
     (''cosh'', EObj ''np.cosh''),
     (''tanh'', EObj ''np.tanh''),
     (''exp'', EObj ''np.exp''),
     (''log'', EObj ''np.log''),
     (''log10'', EObj ''np.log10''),
     (''sqrt'', EObj ''np.sqrt''),
     (''abs'', EObj ''np.abs''),
     (''pi'', EFloat (Fin math_pi)),
     (''e'', EFloat (Fin math_e))]"

text \<open>
  A name is looked up in the local namespace, then in the global one, then in the
  builtins, which are the \<open>dict\<close> the global namespace holds under \<open>__builtins__\<close>.
\<close>

definition lookup_name :: "namespace \<Rightarrow> namespace \<Rightarrow> namespace \<Rightarrow> string \<Rightarrow> exn + evalue" where
  "lookup_name globals builtins locals n =
     (case map_of locals n of
        Some v \<Rightarrow> Inr v
      | None \<Rightarrow>
     (case map_of globals n of
        Some v \<Rightarrow> Inr v
      | None \<Rightarrow>
     (case map_of builtins n of
        Some v \<Rightarrow> Inr v
      | None \<Rightarrow>
          Inl (Exn NameError (''name '' @ [CHR 0x27] @ n @ [CHR 0x27] @ '' is not defined'')))))"

text \<open>
  The evaluation of a syntax tree in the namespaces \<open>s\<close>: operands from left to right,
  the function of a call before its arguments, and of the two branches of a conditional
  expression only the one its test selects. The first exception ends the evaluation.
  A node \<open>Other\<close> is evaluated by the library. Each step goes on in the namespaces as
  the step before has left them.
\<close>

fun py_eval :: "pylib \<Rightarrow> scopes \<Rightarrow> expr \<Rightarrow> (exn + evalue) \<times> scopes"
  and py_eval_args :: "pylib \<Rightarrow> scopes \<Rightarrow> expr list \<Rightarrow> (exn + evalue list) \<times> scopes" where
  "py_eval L s (Constant v) = (Inr v, s)"
| "py_eval L s (Name n) = (case s of (g, b, l) \<Rightarrow> (lookup_name g b l n, s))"
| "py_eval L s (UnaryOp_USub e) =
     (case py_eval L s e of
        (Inl x, s1) \<Rightarrow> (Inl x, s1)
      | (Inr v, s1) \<Rightarrow> py_usub L v s1)"
| "py_eval L s (BinOp e1 op e2) =
     (case py_eval L s e1 of
        (Inl x, s1) \<Rightarrow> (Inl x, s1)
      | (Inr v1, s1) \<Rightarrow>
          (case py_eval L s1 e2 of
             (Inl x, s2) \<Rightarrow> (Inl x, s2)
           | (Inr v2, s2) \<Rightarrow> py_binop L op v1 v2 s2))"
| "py_eval L s (Call f args) =
     (case py_eval L s f of
        (Inl x, s1) \<Rightarrow> (Inl x, s1)
      | (Inr fv, s1) \<Rightarrow>
          (case py_eval_args L s1 args of
             (Inl x, s2) \<Rightarrow> (Inl x, s2)
           | (Inr vs, s2) \<Rightarrow> py_call L fv vs s2))"
| "py_eval L s (Attribute e a) =
     (case py_eval L s e of
        (Inl x, s1) \<Rightarrow> (Inl x, s1)
      | (Inr v, s1) \<Rightarrow> py_getattr L v a s1)"
| "py_eval L s (IfExp test body orelse) =
     (case py_eval L s test of
        (Inl x, s1) \<Rightarrow> (Inl x, s1)
      | (Inr t, s1) \<Rightarrow>
          (case py_bool L t s1 of
             (Inl x, s2) \<Rightarrow> (Inl x, s2)
           | (Inr c, s2) \<Rightarrow> (if c then py_eval L s2 body else py_eval L s2 orelse)))"
| "py_eval L s (Other src) = py_eval_other L src s"
| "py_eval_args L s [] = (Inr [], s)"
| "py_eval_args L s (e # es) =
     (case py_eval L s e of
        (Inl x, s1) \<Rightarrow> (Inl x, s1)
      | (Inr v, s1) \<Rightarrow>
          (case py_eval_args L s1 es of
             (Inl x, s2) \<Rightarrow> (Inl x, s2)
           | (Inr vs, s2) \<Rightarrow> (Inr (v # vs), s2)))"

text \<open>
  The builtin \<open>eval\<close> on a string, with the global namespace, the builtins it holds and
  the local namespace: compile, then evaluate. Its value is that of the expression.
\<close>

definition builtin_eval ::
    "pylib \<Rightarrow> string \<Rightarrow> namespace \<Rightarrow> namespace \<Rightarrow> namespace \<Rightarrow> exn + evalue" where
  "builtin_eval L expression globals builtins locals =
     (case py_compile L expression of
        Inl x \<Rightarrow> Inl x
      | Inr tree \<Rightarrow> fst (py_eval L (globals, builtins, locals) tree))"

text \<open>
  \<open>np.array(result, dtype=float)\<close>: a number becomes an array of no dimension, whose
  shape is the empty tuple.
\<close>

fun np_array :: "pylib \<Rightarrow> evalue \<Rightarrow> exn + ndarray" where
  "np_array L (EInt i) =
     (if \<bar>i\<bar> \<le> 2 ^ 53 then Inr (NdArray [] [Fin (real_of_int i)])
      else np_array_float L (EInt i))"
| "np_array L (EFloat f) = Inr (NdArray [] [f])"
| "np_array L v = np_array_float L v"

text \<open>
  The result of \<open>eval\<close> as an array: itself when it is an \<open>ndarray\<close>, converted
  otherwise.
\<close>

definition as_array :: "pylib \<Rightarrow> evalue \<Rightarrow> exn + ndarray" where
  "as_array L result = (case result of EArray a \<Rightarrow> Inr a | _ \<Rightarrow> np_array L result)"

text \<open>
  \<open>evaluate_expression\<close>. The global namespace given to \<open>eval\<close> is
  \<open>{"__builtins__": {}}\<close>, so the builtins are the empty \<open>dict\<close>.
\<close>

definition eval_globals :: namespace where
  "eval_globals = [(''__builtins__'', EObj ''{}'')]"

definition eval_builtins :: namespace where
  "eval_builtins = []"

definition safe_locals :: "ndarray \<Rightarrow> namespace" where
  "safe_locals x = AList.update ''x'' (EArray x) SAFE_FUNCTIONS"

definition evaluate_expression :: "pylib \<Rightarrow> string \<Rightarrow> ndarray \<Rightarrow> exn + ndarray" where
  "evaluate_expression L expression x =
     (case builtin_eval L expression eval_globals eval_builtins (safe_locals x) of
        Inl exc \<Rightarrow> Inl (Exn ValueError (msg_eval @ exn_str exc))
      | Inr raw \<Rightarrow>
          (case as_array L raw of
             Inl exc \<Rightarrow> Inl exc
           | Inr result \<Rightarrow>
               (if nd_shape result \<noteq> nd_shape x then Inl (Exn ValueError msg_shape)
                else if \<not> list_all isfinite (nd_data result)
                  then Inl (Exn ValueError msg_nonfinite)
                else Inr result)))"

section \<open>Rendering and the request handlers\<close>

text \<open>
  The call \<open>evaluate_expression(payload["expression"], x)\<close> of \<open>render_plot\<close>: \<open>eval\<close> raises a
  \<open>TypeError\<close> for an argument that is no string, which the evaluator wraps as any other.
\<close>

definition eval_arg :: "pylib \<Rightarrow> pyval \<Rightarrow> ndarray \<Rightarrow> exn + ndarray" where
  "eval_arg L expression x =
     (case expression of
        PStr s \<Rightarrow> evaluate_expression L s x
      | _ \<Rightarrow>
          Inl (Exn ValueError
            (msg_eval @ ''eval() arg 1 must be a string, bytes or code object'')))"

text \<open>
  A response: the status, the headers, and the body before \<open>json.dumps\<close> encodes it.
\<close>

datatype body =
    Empty_body
  | Error_body string
  | Image_body string dict bool

record response =
  status :: nat
  headers :: "(string \<times> string) list"
  content :: body

definition build_response :: "nat \<Rightarrow> body \<Rightarrow> response" where
  "build_response st b =
     \<lparr> status = st,
       headers =
         [(''Content-Type'', ''application/json; charset=utf-8''),
          (''Cache-Control'', ''no-cache''),
          (''Access-Control-Allow-Origin'', ''*''),
          (''Access-Control-Allow-Methods'', ''GET, POST, OPTIONS''),
          (''Access-Control-Allow-Headers'', ''Content-Type'')],
       content = b \<rparr>"

definition data_uri :: "string \<Rightarrow> string" where
  "data_uri encoded = ''data:image/png;base64,'' @ encoded"

subsection \<open>The objects of the process\<close>

text \<open>
  The \<open>dict\<close> objects of the process live in a store, from references to contents.
  The module's \<open>DEFAULT_PAYLOAD\<close> is the object at reference 0; \<open>dict(...)\<close> makes a new
  object at the next free reference.
\<close>

record pystate =
  heap :: "nat \<Rightarrow> dict"
  next_ref :: nat

definition DEFAULT_PAYLOAD_ref :: nat where
  "DEFAULT_PAYLOAD_ref = 0"

definition init_state :: pystate where
  "init_state = \<lparr> heap = (\<lambda>r. [])(DEFAULT_PAYLOAD_ref := DEFAULT_PAYLOAD), next_ref = 1 \<rparr>"

definition new_dict :: "dict \<Rightarrow> pystate \<Rightarrow> nat \<times> pystate" where
  "new_dict d s = (next_ref s, s\<lparr> heap := (heap s)(next_ref s := d), next_ref := Suc (next_ref s) \<rparr>)"

text \<open>\<open>parse_payload\<close> returns a reference to the new object it has filled.\<close>

definition parse_payload_h :: "pylib \<Rightarrow> string \<Rightarrow> pystate \<Rightarrow> (exn + nat) \<times> pystate" where
  "parse_payload_h L body s =
     (case parse_payload L (heap s DEFAULT_PAYLOAD_ref) body of
        Inl exc \<Rightarrow> (Inl exc, s)
      | Inr d \<Rightarrow> (case new_dict d s of (r, s') \<Rightarrow> (Inr r, s')))"

text \<open>
  \<open>validate_payload\<close> assigns to the object it is given and returns the same reference.
\<close>

definition validate_payload_h :: "pylib \<Rightarrow> nat \<Rightarrow> pystate \<Rightarrow> (exn + nat) \<times> pystate" where
  "validate_payload_h L payload s =
     (case validate_payload_st L (heap s DEFAULT_PAYLOAD_ref) (heap s payload) of
        (p, raised) \<Rightarrow>
          ((case raised of None \<Rightarrow> Inr payload | Some exc \<Rightarrow> Inl exc),
           s\<lparr> heap := (heap s)(payload := p) \<rparr>))"

text \<open>
  What the call of \<open>eval\<close> does to the objects: nothing when its argument is no string.
\<close>

definition eval_store :: "pylib \<Rightarrow> pyval \<Rightarrow> ndarray \<Rightarrow> (nat \<Rightarrow> dict) \<Rightarrow> (nat \<Rightarrow> dict)" where
  "eval_store L expression x h =
     (case expression of PStr s \<Rightarrow> eval_effect L s x h | _ \<Rightarrow> h)"

text \<open>
  \<open>render_plot\<close>, given the reference of the payload. The sample points come from
  \<open>np.linspace\<close>. The expression is evaluated next: the objects are from then on as the
  evaluation has left them, whether it raises or returns. Drawing the figure and
  encoding the image is \<open>plot_png\<close>, which reads the payload after the evaluation, as
  the metadata do. The result is the encoded image and the metadata.
\<close>

definition render_plot :: "pylib \<Rightarrow> nat \<Rightarrow> pystate \<Rightarrow> (exn + string \<times> dict) \<times> pystate" where
  "render_plot L payload s =
     (case getitem (heap s payload) ''xMin'' of Inl exc \<Rightarrow> (Inl exc, s) | Inr x_min \<Rightarrow>
     (case getitem (heap s payload) ''xMax'' of Inl exc \<Rightarrow> (Inl exc, s) | Inr x_max \<Rightarrow>
     (case getitem (heap s payload) ''samples'' of Inl exc \<Rightarrow> (Inl exc, s) | Inr samples \<Rightarrow>
     (case np_linspace L x_min x_max samples of Inl exc \<Rightarrow> (Inl exc, s) | Inr x \<Rightarrow>
     (case getitem (heap s payload) ''expression'' of
        Inl exc \<Rightarrow> (Inl exc, s)
      | Inr expression \<Rightarrow>
     (let s' = s\<lparr> heap := eval_store L expression x (heap s) \<rparr> in
     (case eval_arg L expression x of Inl exc \<Rightarrow> (Inl exc, s') | Inr y \<Rightarrow>
     (case plot_png L x y (heap s' payload) of Inl exc \<Rightarrow> (Inl exc, s') | Inr encoded \<Rightarrow>
     (case getitem (heap s' payload) ''xMin'' of Inl exc \<Rightarrow> (Inl exc, s') | Inr x_min' \<Rightarrow>
     (case getitem (heap s' payload) ''xMax'' of Inl exc \<Rightarrow> (Inl exc, s') | Inr x_max' \<Rightarrow>
     (case getitem (heap s' payload) ''samples'' of
        Inl exc \<Rightarrow> (Inl exc, s')
      | Inr samples' \<Rightarrow>
          (Inr (encoded,
                [(''xMin'', x_min'), (''xMax'', x_max'), (''samples'', samples')]),
           s'))))))))))))"

subsection \<open>The handlers\<close>

definition max_message_len :: int where
  "max_message_len = 1000000"

definition do_OPTIONS :: "pystate \<Rightarrow> response \<times> pystate" where
  "do_OPTIONS s = (build_response 200 Empty_body, s)"

text \<open>\<open>do_GET\<close> catches nothing: an exception of \<open>render_plot\<close> leaves the handler.\<close>

definition do_GET :: "pylib \<Rightarrow> pystate \<Rightarrow> (exn + response) \<times> pystate" where
  "do_GET L s =
     (case render_plot L DEFAULT_PAYLOAD_ref s of
        (Inl exc, s') \<Rightarrow> (Inl exc, s')
      | (Inr (encoded, metadata), s') \<Rightarrow>
          (Inr (build_response 200 (Image_body (data_uri encoded) metadata True)), s'))"

text \<open>
  The \<open>try\<close> block of \<open>do_POST\<close>: parse, validate, render; the first exception ends it.
\<close>

definition post_pipeline :: "pylib \<Rightarrow> string \<Rightarrow> pystate \<Rightarrow> (exn + response) \<times> pystate" where
  "post_pipeline L body s =
     (case parse_payload_h L body s of
        (Inl exc, s1) \<Rightarrow> (Inl exc, s1)
      | (Inr payload, s1) \<Rightarrow>
     (case validate_payload_h L payload s1 of
        (Inl exc, s2) \<Rightarrow> (Inl exc, s2)
      | (Inr payload', s2) \<Rightarrow>
     (case render_plot L payload' s2 of
        (Inl exc, s3) \<Rightarrow> (Inl exc, s3)
      | (Inr (encoded, metadata), s3) \<Rightarrow>
          (Inr (build_response 200 (Image_body (data_uri encoded) metadata False)), s3))))"

text \<open>The two \<open>except\<close> clauses of \<open>do_POST\<close>.\<close>

definition error_response :: "exn \<Rightarrow> response" where
  "error_response exc =
     (if is_ValueError exc then build_response 400 (Error_body (exn_str exc))
      else build_response 500 (Error_body (''Erreur interne: '' @ exn_str exc)))"

text \<open>
  \<open>do_POST\<close>, from the declared length and the text of the body read from the stream
  (nothing is read when the declared length is zero).
\<close>

definition do_POST :: "pylib \<Rightarrow> int \<Rightarrow> string \<Rightarrow> pystate \<Rightarrow> response \<times> pystate" where
  "do_POST L content_length rfile s =
     (if content_length > max_message_len
      then (build_response 413 (Error_body ''Payload trop volumineux.''), s)
      else
        (let body = (if content_length \<noteq> 0 then rfile else '''') in
         case post_pipeline L body s of
           (Inr resp, s') \<Rightarrow> (resp, s')
         | (Inl exc, s') \<Rightarrow> (error_response exc, s')))"

text \<open>A run of the process: requests handled one after the other.\<close>

datatype request = OPTIONS | GET | POST int string

fun handle :: "pylib \<Rightarrow> request \<Rightarrow> pystate \<Rightarrow> pystate" where
  "handle L OPTIONS s = snd (do_OPTIONS s)"
| "handle L GET s = snd (do_GET L s)"
| "handle L (POST content_length rfile) s = snd (do_POST L content_length rfile s)"

fun run :: "pylib \<Rightarrow> request list \<Rightarrow> pystate \<Rightarrow> pystate" where
  "run L [] s = s"
| "run L (r # rs) s = run L rs (handle L r s)"

section \<open>Notions the properties are stated with\<close>

text \<open>
  The denylist in the words of the specification: the text occurs somewhere in the
  string; the word occurs with no word character next to it on either side.
\<close>

definition contains_text :: "string \<Rightarrow> string \<Rightarrow> bool" where
  "contains_text s t = (\<exists>pre post. s = pre @ t @ post)"

definition contains_word :: "string \<Rightarrow> string \<Rightarrow> bool" where
  "contains_word s w =
     (\<exists>pre post. s = pre @ w @ post \<and>
        (pre = [] \<or> \<not> is_word (last pre)) \<and> (post = [] \<or> \<not> is_word (hd post)))"

definition denylisted :: "string \<Rightarrow> bool" where
  "denylisted s =
     (contains_text s ''__'' \<or> contains_text s ''import'' \<or>
      contains_word s ''exec'' \<or> contains_word s ''eval'' \<or>
      contains_word s ''os'' \<or> contains_word s ''sys'')"



text \<open>
  A library for the examples: each of its functions raises or has no result, and leaves
  the namespaces and the objects as they are. An example replaces the functions it
  needs.
\<close>

definition stub_lib :: pylib where
  "stub_lib =
     \<lparr> json_loads = (\<lambda>s. Inl (Exn JSONDecodeError ''Expecting value'')),
       float_of_str = (\<lambda>s. None),
       int_of_str = (\<lambda>s. None),
       float_of_int = (\<lambda>i. None),
       py_repr = (\<lambda>v. ''''),
       py_compile = (\<lambda>s. Inl (Exn SyntaxError ''invalid syntax'')),
       py_call = (\<lambda>f vs s. (Inl (Exn TypeError ''''), s)),
       py_getattr = (\<lambda>v a s. (Inl (Exn AttributeError ''''), s)),
       py_operator = (\<lambda>op a b s. (Inl (Exn TypeError ''''), s)),
       py_negative = (\<lambda>v s. (Inl (Exn TypeError ''''), s)),
       py_truth = (\<lambda>v s. (Inl (Exn TypeError ''''), s)),
       py_eval_other = (\<lambda>src s. (Inl (Exn TypeError ''''), s)),
       eval_effect = (\<lambda>src x h. h),
       np_array_float = (\<lambda>v. Inl (Exn TypeError '''')),
       np_linspace = (\<lambda>a b n. Inl (Exn TypeError '''')),
       plot_png = (\<lambda>x y p. Inl (Exn RuntimeError '''')) \<rparr>"

text \<open>
  The library that knows the decoding of one body: \<open>json.loads\<close> gives \<open>v\<close> for the
  body \<open>b\<close>. And the library that knows the syntax tree of one expression.
\<close>

definition loads_lib :: "string \<Rightarrow> pyval \<Rightarrow> pylib" where
  "loads_lib b v =
     stub_lib\<lparr>json_loads :=
       (\<lambda>s. if s = b then Inr v else Inl (Exn JSONDecodeError ''Expecting value''))\<rparr>"

definition compile_lib :: "string \<Rightarrow> expr \<Rightarrow> pylib" where
  "compile_lib src tree =
     stub_lib\<lparr>py_compile :=
       (\<lambda>s. if s = src then Inr tree else Inl (Exn SyntaxError ''invalid syntax''))\<rparr>"





text \<open>
  The invariant of the store: the object \<open>DEFAULT_PAYLOAD\<close> holds what the module gave
  it, and its reference is not the next free one.
\<close>

definition defaults_intact :: "pystate \<Rightarrow> bool" where
  "defaults_intact s = (heap s DEFAULT_PAYLOAD_ref = DEFAULT_PAYLOAD \<and> 0 < next_ref s)"

text \<open>
  A library whose evaluation of expressions leaves the object \<open>DEFAULT_PAYLOAD\<close> as it is.
\<close>

definition eval_keeps_defaults :: "pylib \<Rightarrow> bool" where
  "eval_keeps_defaults L =
     (\<forall>src x h. eval_effect L src x h DEFAULT_PAYLOAD_ref = h DEFAULT_PAYLOAD_ref)"

text \<open>
  An expression that reaches the module's objects. It has no \<open>__\<close>, no \<open>import\<close> and none
  of the four words, so the validator lets it pass. In CPython the generator it builds
  runs inside the \<open>lambda\<close>, which \<open>eval\<close> runs for \<open>evaluate_expression\<close>: from the frame
  of the generator, \<open>f_back\<close> leads to the frame of the \<open>lambda\<close>, to that of the evaluated
  code and to that of \<open>evaluate_expression\<close>, whose \<open>f_globals\<close> are the globals of the
  module. The expression calls \<open>clear()\<close> on the \<open>dict\<close> they hold under \<open>DEFAULT_PAYLOAD\<close>,
  and its value is \<open>x\<close>.
\<close>

definition escape_expression :: string where
  "escape_expression =
     ''((lambda l: (l.append((l[0].gi_frame.f_back.f_back.f_back.f_globals for _ in (1,))), '' @
     ''[*l[0]][0]['' @ [CHR 0x27] @ ''DEFAULT_PAYLOAD'' @ [CHR 0x27] @ ''].clear()))([]), x)[1]''"

text \<open>A request body with that expression, over the two sample points 0 and 1.\<close>

definition escape_body :: string where
  \<open>escape_body =
     ''{"expression": "'' @ escape_expression @ ''", "xMin": 0, "xMax": 1, "samples": 2}''\<close>

definition escape_payload :: pyval where
  "escape_payload =
     PDict [(''expression'', PStr escape_expression),
            (''xMin'', PInt 0), (''xMax'', PInt 1), (''samples'', PInt 2)]"

text \<open>The payload the validator makes of it.\<close>

definition escape_validated :: dict where
  "escape_validated =
    [(''expression'', PStr escape_expression),
     (''xMin'', PFloat (Fin 0)),
     (''xMax'', PFloat (Fin 1)),
     (''samples'', PInt 2),
     (''title'', PStr title_default),
     (''xLabel'', PStr ''x''),
     (''yLabel'', PStr ''f(x)''),
     (''color'', PStr ''#2563eb''),
     (''lineWidth'', PFloat (Fin 2)),
     (''grid'', PBool True),
     (''marker'', PStr '''')]"

text \<open>
  The library that knows this body and this expression: the decoding of the body, the
  two sample points \<open>np.linspace(0.0, 1.0, 2)\<close>, the syntax tree (a subscript, so a node
  \<open>Other\<close>), its value and what its evaluation does to the objects. Its other functions
  are those of \<open>stub_lib\<close>.
\<close>

definition escape_lib :: pylib where
  "escape_lib =
     stub_lib\<lparr>
       json_loads :=
         (\<lambda>s. if s = escape_body then Inr escape_payload
              else Inl (Exn JSONDecodeError ''Expecting value'')),
       np_linspace :=
         (\<lambda>a b n. if a = PFloat (Fin 0) \<and> b = PFloat (Fin 1) \<and> n = PInt 2
              then Inr (NdArray [2] [Fin 0, Fin 1]) else Inl (Exn TypeError '''')),
       py_compile :=
         (\<lambda>s. if s = escape_expression then Inr (Other escape_expression)
              else Inl (Exn SyntaxError ''invalid syntax'')),
       py_eval_other :=
         (\<lambda>src s. if src = escape_expression
              then (case s of (g, b, l) \<Rightarrow> (lookup_name g b l ''x'', s))
              else (Inl (Exn TypeError ''''), s)),
       eval_effect :=
         (\<lambda>src x h. if src = escape_expression then h(DEFAULT_PAYLOAD_ref := []) else h) \<rparr>"

section \<open>Properties\<close>

subsection \<open>Facts for evaluating the validator\<close>

lemmas validate_defs =
  validate_payload_def validate_payload_st_def try_interval_def try_samples_def
  try_line_width_def getitem_def dict_get_def display_text_def color_text_def
  marker_text_def strip_def is_space_def re_search_denylist_def match_here_def
  word_here_def is_word_def fl_ge_def double_0_1_def Let_def

lemmas default_defs = DEFAULT_PAYLOAD_def math_pi_def title_default_def

lemma trunc_toward_zero:
  "\<bar>real_of_int (trunc r)\<bar> \<le> \<bar>r\<bar> \<and> \<bar>r - real_of_int (trunc r)\<bar> < 1"
  unfolding trunc_def by (auto; linarith)

subsection \<open>Bounds of the sample count and of the line width\<close>

text \<open>
  C8. On the default payload with one field changed, the validator accepts
  \<open>samples = 2\<close> and \<open>samples = 10000\<close> and rejects \<open>samples = 1\<close> and \<open>samples = 10001\<close>
  with the sample count message; it accepts \<open>lineWidth = 0.1\<close> and \<open>lineWidth = 10\<close> and
  rejects \<open>lineWidth = 0.09\<close> and \<open>lineWidth = 10.01\<close> with the line width message.
  Both bounds are inclusive for both fields. The widths \<open>0.1\<close>, \<open>0.09\<close> and \<open>10.01\<close> are
  the doubles a JSON body gives for these numerals; \<open>10\<close> is the \<open>int\<close>.
\<close>

theorem samples_and_line_width_bounds:
  "validate_payload L DEFAULT_PAYLOAD (AList.update ''samples'' (PInt 2) DEFAULT_PAYLOAD)
     = Inr (AList.update ''samples'' (PInt 2) DEFAULT_PAYLOAD)
   \<and> validate_payload L DEFAULT_PAYLOAD (AList.update ''samples'' (PInt 10000) DEFAULT_PAYLOAD)
     = Inr (AList.update ''samples'' (PInt 10000) DEFAULT_PAYLOAD)
   \<and> validate_payload L DEFAULT_PAYLOAD (AList.update ''samples'' (PInt 1) DEFAULT_PAYLOAD)
     = Inl (Exn ValueError msg_samples)
   \<and> validate_payload L DEFAULT_PAYLOAD (AList.update ''samples'' (PInt 10001) DEFAULT_PAYLOAD)
     = Inl (Exn ValueError msg_samples)
   \<and> validate_payload L DEFAULT_PAYLOAD
       (AList.update ''lineWidth'' (PFloat (Fin double_0_1)) DEFAULT_PAYLOAD)
     = Inr (AList.update ''lineWidth'' (PFloat (Fin double_0_1)) DEFAULT_PAYLOAD)
   \<and> validate_payload L DEFAULT_PAYLOAD (AList.update ''lineWidth'' (PInt 10) DEFAULT_PAYLOAD)
     = Inr (AList.update ''lineWidth'' (PFloat (Fin 10)) DEFAULT_PAYLOAD)
   \<and> validate_payload L DEFAULT_PAYLOAD
       (AList.update ''lineWidth'' (PFloat (Fin double_0_09)) DEFAULT_PAYLOAD)
     = Inl (Exn ValueError msg_line_width)
   \<and> validate_payload L DEFAULT_PAYLOAD
       (AList.update ''lineWidth'' (PFloat (Fin double_10_01)) DEFAULT_PAYLOAD)
     = Inl (Exn ValueError msg_line_width)"
  by (simp add: validate_defs default_defs double_0_09_def double_10_01_def)

subsection \<open>A sample count that is not an integer\<close>

text \<open>
  C10. A sample count given as a finite float \<open>r\<close> is not rejected for being no integer:
  \<open>int\<close> converts it to \<open>trunc r\<close>, its truncation toward zero (no larger in size than \<open>r\<close>
  and less than one away from it), before the range check. So the sample count check
  passes exactly when \<open>2 \<le> trunc r \<le> 10000\<close>, and then with the value \<open>trunc r\<close>; on the
  default payload the validator then returns the payload with \<open>samples = trunc r\<close>, and
  fails with the sample count message otherwise. So \<open>samples = 2.9\<close> is accepted and the
  validated payload holds \<open>samples = 2\<close>.
\<close>

theorem samples_truncated:
  "try_samples L (AList.update ''samples'' (PFloat (Fin r)) payload)
     = (if 2 \<le> trunc r \<and> trunc r \<le> 10000 then Some (trunc r) else None)
   \<and> validate_payload L DEFAULT_PAYLOAD
       (AList.update ''samples'' (PFloat (Fin r)) DEFAULT_PAYLOAD)
     = (if 2 \<le> trunc r \<and> trunc r \<le> 10000
        then Inr (AList.update ''samples'' (PInt (trunc r)) DEFAULT_PAYLOAD)
        else Inl (Exn ValueError msg_samples))
   \<and> \<bar>real_of_int (trunc r)\<bar> \<le> \<bar>r\<bar> \<and> \<bar>r - real_of_int (trunc r)\<bar> < 1
   \<and> trunc double_2_9 = 2
   \<and> validate_payload L DEFAULT_PAYLOAD
       (AList.update ''samples'' (PFloat (Fin double_2_9)) DEFAULT_PAYLOAD)
     = Inr (AList.update ''samples'' (PInt 2) DEFAULT_PAYLOAD)"
proof -
  have a: "try_samples L (AList.update ''samples'' (PFloat (Fin r)) payload)
     = (if 2 \<le> trunc r \<and> trunc r \<le> 10000 then Some (trunc r) else None)"
    by (simp add: try_samples_def update_conv')
  have v: "validate_payload L DEFAULT_PAYLOAD
       (AList.update ''samples'' (PFloat (Fin q)) DEFAULT_PAYLOAD)
     = (if 2 \<le> trunc q \<and> trunc q \<le> 10000
        then Inr (AList.update ''samples'' (PInt (trunc q)) DEFAULT_PAYLOAD)
        else Inl (Exn ValueError msg_samples))" for q
    by (simp add: validate_defs default_defs)
  have b: "trunc double_2_9 = 2"
    by (simp add: trunc_def double_2_9_def)
  have c: "validate_payload L DEFAULT_PAYLOAD
       (AList.update ''samples'' (PFloat (Fin double_2_9)) DEFAULT_PAYLOAD)
     = Inr (AList.update ''samples'' (PInt 2) DEFAULT_PAYLOAD)"
    by (simp add: v b)
  from a v [of r] b c trunc_toward_zero [of r] show ?thesis by (intro conjI) simp_all
qed

text \<open>
  The sample count \<open>7.5\<close> is validated as 7; \<open>0.5\<close> and \<open>-3.5\<close> are truncated to 0 and to -3
  and rejected, as \<open>10000.5\<close> is accepted and \<open>10001.5\<close> is not.
\<close>

theorem samples_truncated_witness:
  "validate_payload stub_lib DEFAULT_PAYLOAD
       (AList.update ''samples'' (PFloat (Fin (15 / 2))) DEFAULT_PAYLOAD)
     = Inr (AList.update ''samples'' (PInt 7) DEFAULT_PAYLOAD)
   \<and> validate_payload stub_lib DEFAULT_PAYLOAD
       (AList.update ''samples'' (PFloat (Fin (1 / 2))) DEFAULT_PAYLOAD)
     = Inl (Exn ValueError msg_samples)
   \<and> validate_payload stub_lib DEFAULT_PAYLOAD
       (AList.update ''samples'' (PFloat (Fin (- 7 / 2))) DEFAULT_PAYLOAD)
     = Inl (Exn ValueError msg_samples)
   \<and> validate_payload stub_lib DEFAULT_PAYLOAD
       (AList.update ''samples'' (PFloat (Fin (20001 / 2))) DEFAULT_PAYLOAD)
     = Inr (AList.update ''samples'' (PInt 10000) DEFAULT_PAYLOAD)
   \<and> validate_payload stub_lib DEFAULT_PAYLOAD
       (AList.update ''samples'' (PFloat (Fin (20003 / 2))) DEFAULT_PAYLOAD)
     = Inl (Exn ValueError msg_samples)"
proof -
  have t: "trunc (15 / 2) = 7" "trunc (1 / 2) = 0" "trunc (- 7 / 2) = - 3"
    "trunc (20001 / 2) = 10000" "trunc (20003 / 2) = 10001"
    by (simp_all add: trunc_def)
  from samples_truncated [of stub_lib "15 / 2" DEFAULT_PAYLOAD]
    samples_truncated [of stub_lib "1 / 2" DEFAULT_PAYLOAD]
    samples_truncated [of stub_lib "- 7 / 2" DEFAULT_PAYLOAD]
    samples_truncated [of stub_lib "20001 / 2" DEFAULT_PAYLOAD]
    samples_truncated [of stub_lib "20003 / 2" DEFAULT_PAYLOAD]
  show ?thesis by (simp only: t) simp
qed

subsection \<open>The denylist pattern\<close>

text \<open>
  The search of the pattern finds what the words of the specification describe, and
  stripping the expression does not change whether it is found: the pattern has no
  white space in it, and a white-space character is no word character.
\<close>

lemma search_from_iff:
  "search_from pw s \<longleftrightarrow>
     (\<exists>pre post. s = pre @ post \<and> match_here (if pre = [] then pw else is_word (last pre)) post)"
proof (induction s arbitrary: pw)
  case Nil
  show ?case by (simp add: match_here_def word_here_def)
next
  case (Cons c cs)
  show ?case
  proof
    assume "search_from pw (c # cs)"
    then consider "match_here pw (c # cs)" | "search_from (is_word c) cs" by auto
    then show "\<exists>pre post. c # cs = pre @ post \<and>
        match_here (if pre = [] then pw else is_word (last pre)) post"
    proof cases
      case 1
      then have "c # cs = [] @ (c # cs) \<and> match_here (if ([]::string) = [] then pw else is_word (last [])) (c # cs)"
        by simp
      then show ?thesis by blast
    next
      case 2
      then obtain pre post where p: "cs = pre @ post"
        "match_here (if pre = [] then is_word c else is_word (last pre)) post"
        using Cons.IH by blast
      then have "c # cs = (c # pre) @ post \<and>
         match_here (if c # pre = [] then pw else is_word (last (c # pre))) post"
        by (cases "pre = []") auto
      then show ?thesis by blast
    qed
  next
    assume "\<exists>pre post. c # cs = pre @ post \<and>
        match_here (if pre = [] then pw else is_word (last pre)) post"
    then obtain pre post where p: "c # cs = pre @ post"
      "match_here (if pre = [] then pw else is_word (last pre)) post" by blast
    show "search_from pw (c # cs)"
    proof (cases pre)
      case Nil
      with p have "post = c # cs" "match_here pw post" by simp_all
      then have "match_here pw (c # cs)" by simp
      then show ?thesis by simp
    next
      case (Cons d pre')
      with p have "cs = pre' @ post"
        "match_here (if pre' = [] then is_word c else is_word (last pre')) post"
        by auto
      then have "search_from (is_word c) cs" using Cons.IH by blast
      then show ?thesis by simp
    qed
  qed
qed

lemma prefix_iff_append: "prefix t s \<longleftrightarrow> (\<exists>post. s = t @ post)"
  by (auto simp: prefix_def)

lemma word_here_iff:
  "word_here pw w s \<longleftrightarrow>
     (\<not> pw \<and> (\<exists>post. s = w @ post \<and> (post = [] \<or> \<not> is_word (hd post))))"
  by (auto simp: word_here_def prefix_def split: list.splits)

lemma contains_text_iff:
  "contains_text s t \<longleftrightarrow> (\<exists>pre post. s = pre @ post \<and> prefix t post)"
  by (auto simp: contains_text_def prefix_def)

lemma contains_word_iff:
  "contains_word s w \<longleftrightarrow>
     (\<exists>pre post. s = pre @ post \<and> word_here (if pre = [] then False else is_word (last pre)) w post)"
proof
  assume "contains_word s w"
  then obtain pre post where p: "s = pre @ w @ post"
    and b1: "pre = [] \<or> \<not> is_word (last pre)"
    and b2: "post = [] \<or> \<not> is_word (hd post)"
    unfolding contains_word_def by blast
  from b1 have "\<not> (if pre = [] then False else is_word (last pre))" by auto
  with b2 have "word_here (if pre = [] then False else is_word (last pre)) w (w @ post)"
    unfolding word_here_iff by blast
  with p show "\<exists>pre post. s = pre @ post \<and>
      word_here (if pre = [] then False else is_word (last pre)) w post"
    by blast
next
  assume "\<exists>pre post. s = pre @ post \<and>
      word_here (if pre = [] then False else is_word (last pre)) w post"
  then obtain pre post where p: "s = pre @ post"
    and h: "word_here (if pre = [] then False else is_word (last pre)) w post"
    by blast
  from h obtain post' where q: "post = w @ post'"
    and b2: "post' = [] \<or> \<not> is_word (hd post')"
    and n: "\<not> (if pre = [] then False else is_word (last pre))"
    unfolding word_here_iff by blast
  from n have b1: "pre = [] \<or> \<not> is_word (last pre)" by (cases "pre = []") auto
  from p q have "s = pre @ w @ post'" by simp
  with b1 b2 show "contains_word s w" unfolding contains_word_def by blast
qed

lemma re_search_denylist_iff: "re_search_denylist s \<longleftrightarrow> denylisted s"
proof -
  have "denylisted s \<longleftrightarrow>
      (\<exists>pre post. s = pre @ post \<and>
         match_here (if pre = [] then False else is_word (last pre)) post)"
    unfolding denylisted_def contains_text_iff contains_word_iff match_here_def
    by (simp only: conj_disj_distribL ex_disj_distrib)
  then show ?thesis
    by (simp only: re_search_denylist_def search_from_iff)
qed

lemma space_not_word: "is_space c \<Longrightarrow> \<not> is_word c"
  by (auto simp: is_space_def is_word_def Let_def)

lemma strip_decomp:
  "\<exists>a b. s = a @ strip s @ b \<and> (\<forall>c \<in> set a. is_space c) \<and> (\<forall>c \<in> set b. is_space c)"
proof -
  define m where "m = dropWhile is_space s"
  have 1: "s = takeWhile is_space s @ m" by (simp add: m_def)
  have "rev (rev m) = rev (takeWhile is_space (rev m) @ dropWhile is_space (rev m))"
    by (simp only: takeWhile_dropWhile_id)
  then have "m = rev (dropWhile is_space (rev m)) @ rev (takeWhile is_space (rev m))"
    by (simp only: rev_rev_ident rev_append)
  moreover have "strip s = rev (dropWhile is_space (rev m))"
    by (simp add: strip_def m_def)
  ultimately have 2: "m = strip s @ rev (takeWhile is_space (rev m))"
    by simp
  have 3: "\<forall>c \<in> set (takeWhile is_space s). is_space c"
    by (auto dest: set_takeWhileD)
  have 4: "\<forall>c \<in> set (rev (takeWhile is_space (rev m))). is_space c"
    by (auto dest: set_takeWhileD)
  from 1 2 have "s = takeWhile is_space s @ strip s @ rev (takeWhile is_space (rev m))"
    by simp
  with 3 4 show ?thesis by blast
qed

lemma contains_text_front:
  assumes "is_space c" "t \<noteq> []" "\<not> is_space (hd t)"
  shows "contains_text (c # s) t \<longleftrightarrow> contains_text s t"
proof
  assume "contains_text (c # s) t"
  then obtain pre post where p: "c # s = pre @ t @ post" by (auto simp: contains_text_def)
  show "contains_text s t"
  proof (cases pre)
    case Nil
    with p assms(2) have "hd t = c" by (cases t) auto
    with assms show ?thesis by simp
  next
    case (Cons d pre')
    with p have "s = pre' @ t @ post" by simp
    then show ?thesis by (auto simp: contains_text_def)
  qed
next
  assume "contains_text s t"
  then obtain pre post where "s = pre @ t @ post" by (auto simp: contains_text_def)
  then have "c # s = (c # pre) @ t @ post" by simp
  then show "contains_text (c # s) t" unfolding contains_text_def by blast
qed

lemma contains_text_back:
  assumes "is_space c" "t \<noteq> []" "\<not> is_space (last t)"
  shows "contains_text (s @ [c]) t \<longleftrightarrow> contains_text s t"
proof
  assume "contains_text (s @ [c]) t"
  then obtain pre post where p: "s @ [c] = pre @ t @ post" by (auto simp: contains_text_def)
  show "contains_text s t"
  proof (cases post rule: rev_cases)
    case Nil
    with p have "last (s @ [c]) = last (pre @ t)" by simp
    with assms(2) have "last t = c" by simp
    with assms show ?thesis by simp
  next
    case (snoc post' d)
    with p have "s @ [c] = (pre @ t @ post') @ [d]" by simp
    then have "s = pre @ t @ post'" by (simp only: append1_eq_conv)
    then show ?thesis by (auto simp: contains_text_def)
  qed
next
  assume "contains_text s t"
  then obtain pre post where "s = pre @ t @ post" by (auto simp: contains_text_def)
  then have "s @ [c] = pre @ t @ (post @ [c])" by simp
  then show "contains_text (s @ [c]) t" unfolding contains_text_def by blast
qed

lemma contains_word_front:
  assumes "is_space c" "t \<noteq> []" "\<not> is_space (hd t)"
  shows "contains_word (c # s) t \<longleftrightarrow> contains_word s t"
proof
  assume "contains_word (c # s) t"
  then obtain pre post where p: "c # s = pre @ t @ post"
    and b: "pre = [] \<or> \<not> is_word (last pre)" "post = [] \<or> \<not> is_word (hd post)"
    by (auto simp: contains_word_def)
  show "contains_word s t"
  proof (cases pre)
    case Nil
    with p assms(2) have "hd t = c" by (cases t) auto
    with assms show ?thesis by simp
  next
    case (Cons d pre')
    with p have 1: "s = pre' @ t @ post" by simp
    from Cons b have 2: "pre' = [] \<or> \<not> is_word (last pre')" by (cases "pre' = []") auto
    from 1 2 b(2) show ?thesis unfolding contains_word_def by blast
  qed
next
  assume "contains_word s t"
  then obtain pre post where p: "s = pre @ t @ post"
    and b: "pre = [] \<or> \<not> is_word (last pre)" "post = [] \<or> \<not> is_word (hd post)"
    by (auto simp: contains_word_def)
  from p have 1: "c # s = (c # pre) @ t @ post" by simp
  from b(1) assms(1) have 2: "c # pre = [] \<or> \<not> is_word (last (c # pre))"
    by (cases "pre = []") (auto dest: space_not_word)
  from 1 2 b(2) show "contains_word (c # s) t" unfolding contains_word_def by blast
qed

lemma contains_word_back:
  assumes "is_space c" "t \<noteq> []" "\<not> is_space (last t)"
  shows "contains_word (s @ [c]) t \<longleftrightarrow> contains_word s t"
proof
  assume "contains_word (s @ [c]) t"
  then obtain pre post where p: "s @ [c] = pre @ t @ post"
    and b: "pre = [] \<or> \<not> is_word (last pre)" "post = [] \<or> \<not> is_word (hd post)"
    by (auto simp: contains_word_def)
  show "contains_word s t"
  proof (cases post rule: rev_cases)
    case Nil
    with p have "last (s @ [c]) = last (pre @ t)" by simp
    with assms(2) have "last t = c" by simp
    with assms show ?thesis by simp
  next
    case (snoc post' d)
    with p have "s @ [c] = (pre @ t @ post') @ [d]" by simp
    then have 1: "s = pre @ t @ post'" by (simp only: append1_eq_conv)
    from snoc b(2) have 2: "post' = [] \<or> \<not> is_word (hd post')" by (cases "post' = []") auto
    from 1 2 b(1) show ?thesis unfolding contains_word_def by blast
  qed
next
  assume "contains_word s t"
  then obtain pre post where p: "s = pre @ t @ post"
    and b: "pre = [] \<or> \<not> is_word (last pre)" "post = [] \<or> \<not> is_word (hd post)"
    by (auto simp: contains_word_def)
  from p have 1: "s @ [c] = pre @ t @ (post @ [c])" by simp
  from b(2) assms(1) have 2: "post @ [c] = [] \<or> \<not> is_word (hd (post @ [c]))"
    by (cases "post = []") (auto dest: space_not_word)
  from 1 2 b(1) show "contains_word (s @ [c]) t" unfolding contains_word_def by blast
qed

lemma contains_text_spaces:
  assumes "\<forall>c \<in> set a. is_space c" "\<forall>c \<in> set b. is_space c"
    "t \<noteq> []" "\<not> is_space (hd t)" "\<not> is_space (last t)"
  shows "contains_text (a @ m @ b) t \<longleftrightarrow> contains_text m t"
proof -
  have bk: "contains_text (m @ b) t \<longleftrightarrow> contains_text m t" using assms(2)
  proof (induction b rule: rev_induct)
    case Nil
    show ?case by simp
  next
    case (snoc c b)
    then have "contains_text ((m @ b) @ [c]) t \<longleftrightarrow> contains_text (m @ b) t"
      using assms(3,5) by (intro contains_text_back) auto
    with snoc show ?case by simp
  qed
  have "contains_text (a @ m @ b) t \<longleftrightarrow> contains_text (m @ b) t" using assms(1)
  proof (induction a)
    case Nil
    show ?case by simp
  next
    case (Cons c a)
    then have "contains_text (c # (a @ m @ b)) t \<longleftrightarrow> contains_text (a @ m @ b) t"
      using assms(3,4) by (intro contains_text_front) auto
    with Cons show ?case by simp
  qed
  with bk show ?thesis by simp
qed

lemma contains_word_spaces:
  assumes "\<forall>c \<in> set a. is_space c" "\<forall>c \<in> set b. is_space c"
    "t \<noteq> []" "\<not> is_space (hd t)" "\<not> is_space (last t)"
  shows "contains_word (a @ m @ b) t \<longleftrightarrow> contains_word m t"
proof -
  have bk: "contains_word (m @ b) t \<longleftrightarrow> contains_word m t" using assms(2)
  proof (induction b rule: rev_induct)
    case Nil
    show ?case by simp
  next
    case (snoc c b)
    then have "contains_word ((m @ b) @ [c]) t \<longleftrightarrow> contains_word (m @ b) t"
      using assms(3,5) by (intro contains_word_back) auto
    with snoc show ?case by simp
  qed
  have "contains_word (a @ m @ b) t \<longleftrightarrow> contains_word (m @ b) t" using assms(1)
  proof (induction a)
    case Nil
    show ?case by simp
  next
    case (Cons c a)
    then have "contains_word (c # (a @ m @ b)) t \<longleftrightarrow> contains_word (a @ m @ b) t"
      using assms(3,4) by (intro contains_word_front) auto
    with Cons show ?case by simp
  qed
  with bk show ?thesis by simp
qed

lemma denylisted_strip: "denylisted (strip s) \<longleftrightarrow> denylisted s"
proof -
  obtain a b where s: "s = a @ strip s @ b"
    and a: "\<forall>c \<in> set a. is_space c" and b: "\<forall>c \<in> set b. is_space c"
    using strip_decomp by blast
  have t: "\<And>t. t \<noteq> [] \<Longrightarrow> \<not> is_space (hd t) \<Longrightarrow> \<not> is_space (last t) \<Longrightarrow>
      contains_text (a @ strip s @ b) t \<longleftrightarrow> contains_text (strip s) t"
    using a b by (rule contains_text_spaces)
  have w: "\<And>t. t \<noteq> [] \<Longrightarrow> \<not> is_space (hd t) \<Longrightarrow> \<not> is_space (last t) \<Longrightarrow>
      contains_word (a @ strip s @ b) t \<longleftrightarrow> contains_word (strip s) t"
    using a b by (rule contains_word_spaces)
  have "denylisted (a @ strip s @ b) \<longleftrightarrow> denylisted (strip s)"
    unfolding denylisted_def
    by (simp add: t w is_space_def)
  with s show ?thesis by simp
qed

subsection \<open>The stages of the validator\<close>

text \<open>
  Each check, when the checks before it pass and it fails, decides the result. The
  checks after the first assignment are reached with the default payload as
  \<open>DEFAULT_PAYLOAD\<close>, whose display texts and colour are always there.
\<close>

lemma msgs_distinct:
  "msg_denied \<noteq> msg_interval" "msg_denied \<noteq> msg_samples" "msg_denied \<noteq> msg_empty"
  "msg_denied \<noteq> msg_line_width"
  by (simp_all add: msg_denied_def msg_interval_def msg_samples_def msg_empty_def
      msg_line_width_def)

lemma validate_interval_fails:
  "try_interval L p = None \<Longrightarrow> validate_payload L D p = Inl (Exn ValueError msg_interval)"
  by (simp add: validate_payload_def validate_payload_st_def)

lemma validate_samples_fails:
  "try_interval L p \<noteq> None \<Longrightarrow> try_samples L p = None \<Longrightarrow>
   validate_payload L D p = Inl (Exn ValueError msg_samples)"
  by (auto simp: validate_payload_def validate_payload_st_def)

lemma validate_empty_fails:
  "try_interval L p \<noteq> None \<Longrightarrow> try_samples L p \<noteq> None \<Longrightarrow>
   map_of p ''expression'' = Some ev \<Longrightarrow> strip (py_str L ev) = [] \<Longrightarrow>
   validate_payload L D p = Inl (Exn ValueError msg_empty)"
  by (auto simp: validate_payload_def validate_payload_st_def getitem_def)

lemma validate_denied_fails:
  "try_interval L p \<noteq> None \<Longrightarrow> try_samples L p \<noteq> None \<Longrightarrow>
   map_of p ''expression'' = Some ev \<Longrightarrow> strip (py_str L ev) \<noteq> [] \<Longrightarrow>
   re_search_denylist (strip (py_str L ev)) \<Longrightarrow>
   validate_payload L D p = Inl (Exn ValueError msg_denied)"
  by (auto simp: validate_payload_def validate_payload_st_def getitem_def)

lemma try_line_width_update:
  "k \<noteq> ''lineWidth'' \<Longrightarrow> try_line_width L (AList.update k v q) = try_line_width L q"
  by (simp add: try_line_width_def update_conv')

lemma display_text_default:
  "k \<in> {''title'', ''xLabel'', ''yLabel''} \<Longrightarrow> \<exists>t. display_text L DEFAULT_PAYLOAD q k = Inr t"
  by (auto simp: display_text_def getitem_def DEFAULT_PAYLOAD_def Let_def)

lemma color_text_default: "\<exists>c. color_text L DEFAULT_PAYLOAD q = Inr c"
  by (auto simp: color_text_def getitem_def DEFAULT_PAYLOAD_def Let_def)

lemma validate_line_width_fails:
  assumes "try_interval L p \<noteq> None" "try_samples L p \<noteq> None"
    "map_of p ''expression'' = Some ev" "strip (py_str L ev) \<noteq> []"
    "\<not> re_search_denylist (strip (py_str L ev))" "try_line_width L p = None"
  shows "validate_payload L DEFAULT_PAYLOAD p = Inl (Exn ValueError msg_line_width)"
proof -
  obtain x_min x_max where i: "try_interval L p = Some (x_min, x_max)"
    using assms(1) by auto
  obtain n where n: "try_samples L p = Some n" using assms(2) by auto
  define p4 where "p4 = AList.update ''expression'' (PStr (strip (py_str L ev)))
     (AList.update ''samples'' (PInt n)
       (AList.update ''xMax'' (PFloat x_max) (AList.update ''xMin'' (PFloat x_min) p)))"
  obtain t where t: "display_text L DEFAULT_PAYLOAD p4 ''title'' = Inr t"
    using display_text_default [of "''title''"] by auto
  define p5 where "p5 = AList.update ''title'' t p4"
  obtain xl where xl: "display_text L DEFAULT_PAYLOAD p5 ''xLabel'' = Inr xl"
    using display_text_default [of "''xLabel''"] by auto
  define p6 where "p6 = AList.update ''xLabel'' xl p5"
  obtain yl where yl: "display_text L DEFAULT_PAYLOAD p6 ''yLabel'' = Inr yl"
    using display_text_default [of "''yLabel''"] by auto
  define p7 where "p7 = AList.update ''yLabel'' yl p6"
  obtain c where c: "color_text L DEFAULT_PAYLOAD p7 = Inr c"
    using color_text_default by blast
  define p9 where "p9 = AList.update ''marker'' (marker_text L (AList.update ''color'' c p7))
     (AList.update ''color'' c p7)"
  have "try_line_width L p9 = try_line_width L p"
    by (simp add: p9_def p7_def p6_def p5_def p4_def try_line_width_update)
  with assms(6) have lw: "try_line_width L p9 = None" by simp
  show ?thesis
    using i n assms(3,4,5) t xl yl c lw
    by (simp add: validate_payload_def validate_payload_st_def getitem_def Let_def
        p4_def [symmetric] p5_def [symmetric] p6_def [symmetric] p7_def [symmetric]
        p9_def [symmetric])
qed

lemma validate_accepts:
  assumes "try_interval L p \<noteq> None" "try_samples L p \<noteq> None"
    "map_of p ''expression'' = Some ev" "strip (py_str L ev) \<noteq> []"
    "\<not> re_search_denylist (strip (py_str L ev))" "try_line_width L p \<noteq> None"
  shows "\<exists>p'. validate_payload L DEFAULT_PAYLOAD p = Inr p'"
proof -
  obtain x_min x_max where i: "try_interval L p = Some (x_min, x_max)"
    using assms(1) by auto
  obtain n where n: "try_samples L p = Some n" using assms(2) by auto
  define p4 where "p4 = AList.update ''expression'' (PStr (strip (py_str L ev)))
     (AList.update ''samples'' (PInt n)
       (AList.update ''xMax'' (PFloat x_max) (AList.update ''xMin'' (PFloat x_min) p)))"
  obtain t where t: "display_text L DEFAULT_PAYLOAD p4 ''title'' = Inr t"
    using display_text_default [of "''title''"] by auto
  define p5 where "p5 = AList.update ''title'' t p4"
  obtain xl where xl: "display_text L DEFAULT_PAYLOAD p5 ''xLabel'' = Inr xl"
    using display_text_default [of "''xLabel''"] by auto
  define p6 where "p6 = AList.update ''xLabel'' xl p5"
  obtain yl where yl: "display_text L DEFAULT_PAYLOAD p6 ''yLabel'' = Inr yl"
    using display_text_default [of "''yLabel''"] by auto
  define p7 where "p7 = AList.update ''yLabel'' yl p6"
  obtain c where c: "color_text L DEFAULT_PAYLOAD p7 = Inr c"
    using color_text_default by blast
  define p9 where "p9 = AList.update ''marker'' (marker_text L (AList.update ''color'' c p7))
     (AList.update ''color'' c p7)"
  have "try_line_width L p9 = try_line_width L p"
    by (simp add: p9_def p7_def p6_def p5_def p4_def try_line_width_update)
  with assms(6) obtain w where lw: "try_line_width L p9 = Some w" by auto
  have g: "getitem DEFAULT_PAYLOAD ''grid'' = Inr (PBool True)"
    by (simp add: getitem_def DEFAULT_PAYLOAD_def)
  have e: "getitem p ''expression'' = Inr ev"
    using assms(3) by (simp add: getitem_def)
  show ?thesis
    using i n e assms(4,5) t xl yl c lw g
    by (simp add: validate_payload_def validate_payload_st_def Let_def
        p4_def [symmetric] p5_def [symmetric] p6_def [symmetric] p7_def [symmetric]
        p9_def [symmetric])
qed

lemma getitem_Inl: "getitem d k = Inl e \<Longrightarrow> \<exists>m. e = Exn KeyError m"
  by (auto simp: getitem_def split: option.splits)

lemma display_text_Inl: "display_text L D q k = Inl e \<Longrightarrow> \<exists>m. e = Exn KeyError m"
  by (auto simp: display_text_def Let_def split: if_splits dest: getitem_Inl)

lemma color_text_Inl: "color_text L D q = Inl e \<Longrightarrow> \<exists>m. e = Exn KeyError m"
  by (auto simp: color_text_def Let_def split: if_splits sum.splits dest: getitem_Inl)

lemma validate_payload_errors:
  assumes "validate_payload L D p = Inl e"
  shows "e = Exn ValueError msg_interval \<or> e = Exn ValueError msg_samples
       \<or> e = Exn ValueError msg_empty \<or> e = Exn ValueError msg_line_width
       \<or> (\<exists>m. e = Exn KeyError m)
       \<or> (e = Exn ValueError msg_denied
            \<and> (\<exists>ev. map_of p ''expression'' = Some ev \<and> re_search_denylist (strip (py_str L ev))))"
proof (cases "try_interval L p")
  case None
  with assms show ?thesis by (simp add: validate_payload_def validate_payload_st_def)
next
  case (Some iv)
  note iv = this
  show ?thesis
  proof (cases "try_samples L p")
    case None
    with assms iv show ?thesis
      by (simp add: validate_payload_def validate_payload_st_def split: prod.splits)
  next
    case (Some n)
    note n = this
    show ?thesis
    proof (cases "map_of p ''expression''")
      case None
      with assms iv n show ?thesis
        by (auto simp: validate_payload_def validate_payload_st_def getitem_def
            split: prod.splits)
    next
      case (Some ev)
      note ev = this
      then have g: "getitem p ''expression'' = Inr ev" by (simp add: getitem_def)
      show ?thesis
      proof (cases "strip (py_str L ev) = []")
        case True
        with assms iv n g show ?thesis
          by (auto simp: validate_payload_def validate_payload_st_def split: prod.splits)
      next
        case False
        note ne = this
        show ?thesis
        proof (cases "re_search_denylist (strip (py_str L ev))")
          case True
          with assms iv n g ne ev show ?thesis
            by (auto simp: validate_payload_def validate_payload_st_def split: prod.splits)
        next
          case False
          with assms iv n g ne show ?thesis
            by (auto simp: validate_payload_def validate_payload_st_def Let_def
                split: prod.splits sum.splits option.splits
                dest: display_text_Inl color_text_Inl getitem_Inl)
        qed
      qed
    qed
  qed
qed

lemma validate_not_denied:
  assumes "map_of p ''expression'' = Some ev" "\<not> re_search_denylist (strip (py_str L ev))"
  shows "validate_payload L D p \<noteq> Inl (Exn ValueError msg_denied)"
proof
  assume "validate_payload L D p = Inl (Exn ValueError msg_denied)"
  from validate_payload_errors [OF this] assms msgs_distinct show False by auto
qed

lemma denylist_of_stripped:
  "re_search_denylist (strip s) \<longleftrightarrow> denylisted s"
  by (simp only: re_search_denylist_iff denylisted_strip)

text \<open>
  C7. The validator stops at the first check that fails, in the order interval, sample
  count, empty expression, denylist, line width: a failing check gives its message
  whatever the later fields hold. The interval check fails with the same message for
  an \<open>xMin\<close> or \<open>xMax\<close> that \<open>float\<close> cannot convert as for \<open>xMin >= xMax\<close>; the sample
  count check fails with the same message for a value \<open>int\<close> cannot convert as for a
  count outside 2..10000; the line width check fails with the same message for a value
  \<open>float\<close> cannot convert as for a width outside 0.1..10.
\<close>

theorem validation_order:
  "(try_interval L p = None \<longrightarrow>
      validate_payload L D p = Inl (Exn ValueError msg_interval))
   \<and> (try_interval L p \<noteq> None \<and> try_samples L p = None \<longrightarrow>
      validate_payload L D p = Inl (Exn ValueError msg_samples))
   \<and> (try_interval L p \<noteq> None \<and> try_samples L p \<noteq> None
       \<and> map_of p ''expression'' = Some ev \<and> strip (py_str L ev) = [] \<longrightarrow>
      validate_payload L D p = Inl (Exn ValueError msg_empty))
   \<and> (try_interval L p \<noteq> None \<and> try_samples L p \<noteq> None
       \<and> map_of p ''expression'' = Some ev \<and> strip (py_str L ev) \<noteq> []
       \<and> denylisted (py_str L ev) \<longrightarrow>
      validate_payload L D p = Inl (Exn ValueError msg_denied))
   \<and> (try_interval L p \<noteq> None \<and> try_samples L p \<noteq> None
       \<and> map_of p ''expression'' = Some ev \<and> strip (py_str L ev) \<noteq> []
       \<and> \<not> denylisted (py_str L ev) \<and> try_line_width L p = None \<longrightarrow>
      validate_payload L DEFAULT_PAYLOAD p = Inl (Exn ValueError msg_line_width))
   \<and> (map_of p ''xMin'' = Some a \<and> py_float L a = None \<longrightarrow> try_interval L p = None)
   \<and> (map_of p ''xMax'' = Some b \<and> py_float L b = None \<longrightarrow> try_interval L p = None)
   \<and> (map_of p ''xMin'' = Some a \<and> map_of p ''xMax'' = Some b
       \<and> py_float L a = Some x \<and> py_float L b = Some y \<and> fl_ge x y \<longrightarrow>
      try_interval L p = None)
   \<and> (map_of p ''samples'' = Some c \<and> py_int L c = None \<longrightarrow> try_samples L p = None)
   \<and> (map_of p ''samples'' = Some c \<and> py_int L c = Some n \<and> (n < 2 \<or> 10000 < n) \<longrightarrow>
      try_samples L p = None)
   \<and> (map_of p ''lineWidth'' = Some d \<and> py_float L d = None \<longrightarrow>
      try_line_width L p = None)
   \<and> (map_of p ''lineWidth'' = Some d \<and> py_float L d = Some w
       \<and> \<not> (fl_le (Fin double_0_1) w \<and> fl_le w (Fin 10)) \<longrightarrow>
      try_line_width L p = None)"
proof -
  have 1: "try_interval L p = None \<longrightarrow>
      validate_payload L D p = Inl (Exn ValueError msg_interval)"
    by (simp add: validate_interval_fails)
  have 2: "try_interval L p \<noteq> None \<and> try_samples L p = None \<longrightarrow>
      validate_payload L D p = Inl (Exn ValueError msg_samples)"
    by (simp add: validate_samples_fails)
  have 3: "try_interval L p \<noteq> None \<and> try_samples L p \<noteq> None
       \<and> map_of p ''expression'' = Some ev \<and> strip (py_str L ev) = [] \<longrightarrow>
      validate_payload L D p = Inl (Exn ValueError msg_empty)"
    using validate_empty_fails [of L p ev D] by blast
  have 4: "try_interval L p \<noteq> None \<and> try_samples L p \<noteq> None
       \<and> map_of p ''expression'' = Some ev \<and> strip (py_str L ev) \<noteq> []
       \<and> denylisted (py_str L ev) \<longrightarrow>
      validate_payload L D p = Inl (Exn ValueError msg_denied)"
    using validate_denied_fails [of L p ev D] denylist_of_stripped [of "py_str L ev"]
    by blast
  have 5: "try_interval L p \<noteq> None \<and> try_samples L p \<noteq> None
       \<and> map_of p ''expression'' = Some ev \<and> strip (py_str L ev) \<noteq> []
       \<and> \<not> denylisted (py_str L ev) \<and> try_line_width L p = None \<longrightarrow>
      validate_payload L DEFAULT_PAYLOAD p = Inl (Exn ValueError msg_line_width)"
    using validate_line_width_fails [of L p ev] denylist_of_stripped [of "py_str L ev"]
    by blast
  have 6: "map_of p ''xMin'' = Some a \<and> py_float L a = None \<longrightarrow> try_interval L p = None"
    by (simp add: try_interval_def)
  have 7: "map_of p ''xMax'' = Some b \<and> py_float L b = None \<longrightarrow> try_interval L p = None"
    by (simp add: try_interval_def split: option.splits)
  have 8: "map_of p ''xMin'' = Some a \<and> map_of p ''xMax'' = Some b
       \<and> py_float L a = Some x \<and> py_float L b = Some y \<and> fl_ge x y \<longrightarrow>
      try_interval L p = None"
    by (simp add: try_interval_def)
  have 9: "map_of p ''samples'' = Some c \<and> py_int L c = None \<longrightarrow> try_samples L p = None"
    by (simp add: try_samples_def)
  have 10: "map_of p ''samples'' = Some c \<and> py_int L c = Some n \<and> (n < 2 \<or> 10000 < n) \<longrightarrow>
      try_samples L p = None"
    by (auto simp: try_samples_def)
  have 11: "map_of p ''lineWidth'' = Some d \<and> py_float L d = None \<longrightarrow>
      try_line_width L p = None"
    by (simp add: try_line_width_def)
  have 12: "map_of p ''lineWidth'' = Some d \<and> py_float L d = Some w
       \<and> \<not> (fl_le (Fin double_0_1) w \<and> fl_le w (Fin 10)) \<longrightarrow>
      try_line_width L p = None"
    by (auto simp: try_line_width_def)
  from 1 2 3 4 5 6 7 8 9 10 11 12 show ?thesis by (intro conjI)
qed

text \<open>
  Payloads that break several constraints at once, with a library that converts no
  string: each reports the earliest check that fails.
\<close>

lemmas stage_eval =
  try_interval_def try_samples_def try_line_width_def stub_lib_def fl_ge_def double_0_1_def
  strip_def is_space_def re_search_denylist_def match_here_def word_here_def is_word_def
  denylist_of_stripped [symmetric]

theorem validation_order_witness:
  "validate_payload stub_lib DEFAULT_PAYLOAD
     [(''xMin'', PStr ''abc''), (''xMax'', PInt 1), (''samples'', PInt 1),
      (''expression'', PStr ''__''), (''lineWidth'', PInt 100)]
     = Inl (Exn ValueError msg_interval)
   \<and> validate_payload stub_lib DEFAULT_PAYLOAD
     [(''xMin'', PInt 5), (''xMax'', PInt 1), (''samples'', PStr ''many''),
      (''expression'', PStr ''''), (''lineWidth'', PInt 100)]
     = Inl (Exn ValueError msg_interval)
   \<and> validate_payload stub_lib DEFAULT_PAYLOAD
     [(''xMin'', PInt 0), (''xMax'', PInt 1), (''samples'', PStr ''many''),
      (''expression'', PStr ''__''), (''lineWidth'', PStr ''thick'')]
     = Inl (Exn ValueError msg_samples)
   \<and> validate_payload stub_lib DEFAULT_PAYLOAD
     [(''xMin'', PInt 0), (''xMax'', PInt 1), (''samples'', PInt 10001),
      (''expression'', PStr ''__''), (''lineWidth'', PInt 100)]
     = Inl (Exn ValueError msg_samples)
   \<and> validate_payload stub_lib DEFAULT_PAYLOAD
     [(''xMin'', PInt 0), (''xMax'', PInt 1), (''samples'', PInt 2),
      (''expression'', PStr ''  ''), (''lineWidth'', PInt 100)]
     = Inl (Exn ValueError msg_empty)
   \<and> validate_payload stub_lib DEFAULT_PAYLOAD
     [(''xMin'', PInt 0), (''xMax'', PInt 1), (''samples'', PInt 2),
      (''expression'', PStr '' os ''), (''lineWidth'', PInt 100)]
     = Inl (Exn ValueError msg_denied)
   \<and> validate_payload stub_lib DEFAULT_PAYLOAD
     [(''xMin'', PInt 0), (''xMax'', PInt 1), (''samples'', PInt 2),
      (''expression'', PStr ''x''), (''lineWidth'', PStr ''thick'')]
     = Inl (Exn ValueError msg_line_width)
   \<and> validate_payload stub_lib DEFAULT_PAYLOAD
     [(''xMin'', PInt 0), (''xMax'', PInt 1), (''samples'', PInt 2),
      (''expression'', PStr ''x''), (''lineWidth'', PInt 100)]
     = Inl (Exn ValueError msg_line_width)"
proof -
  let ?v = "validate_payload stub_lib DEFAULT_PAYLOAD"
  have 1: "?v [(''xMin'', PStr ''abc''), (''xMax'', PInt 1), (''samples'', PInt 1),
      (''expression'', PStr ''__''), (''lineWidth'', PInt 100)]
     = Inl (Exn ValueError msg_interval)"
    using validation_order [of stub_lib "[(''xMin'', PStr ''abc''), (''xMax'', PInt 1),
      (''samples'', PInt 1), (''expression'', PStr ''__''), (''lineWidth'', PInt 100)]"
      DEFAULT_PAYLOAD "PStr ''__''" "PStr ''abc''" "PInt 1" "Fin 0" "Fin 1" "PInt 1" 1
      "PInt 100" "Fin 100"]
    by (simp add: stage_eval)
  have 2: "?v [(''xMin'', PInt 5), (''xMax'', PInt 1), (''samples'', PStr ''many''),
      (''expression'', PStr ''''), (''lineWidth'', PInt 100)]
     = Inl (Exn ValueError msg_interval)"
    using validation_order [of stub_lib "[(''xMin'', PInt 5), (''xMax'', PInt 1),
      (''samples'', PStr ''many''), (''expression'', PStr ''''), (''lineWidth'', PInt 100)]"
      DEFAULT_PAYLOAD "PStr ''''" "PInt 5" "PInt 1" "Fin 5" "Fin 1" "PStr ''many''" 1
      "PInt 100" "Fin 100"]
    by (simp add: stage_eval)
  have 3: "?v [(''xMin'', PInt 0), (''xMax'', PInt 1), (''samples'', PStr ''many''),
      (''expression'', PStr ''__''), (''lineWidth'', PStr ''thick'')]
     = Inl (Exn ValueError msg_samples)"
    using validation_order [of stub_lib "[(''xMin'', PInt 0), (''xMax'', PInt 1),
      (''samples'', PStr ''many''), (''expression'', PStr ''__''),
      (''lineWidth'', PStr ''thick'')]"
      DEFAULT_PAYLOAD "PStr ''__''" "PInt 0" "PInt 1" "Fin 0" "Fin 1" "PStr ''many''" 1
      "PStr ''thick''" "Fin 100"]
    by (simp add: stage_eval)
  have 4: "?v [(''xMin'', PInt 0), (''xMax'', PInt 1), (''samples'', PInt 10001),
      (''expression'', PStr ''__''), (''lineWidth'', PInt 100)]
     = Inl (Exn ValueError msg_samples)"
    using validation_order [of stub_lib "[(''xMin'', PInt 0), (''xMax'', PInt 1),
      (''samples'', PInt 10001), (''expression'', PStr ''__''), (''lineWidth'', PInt 100)]"
      DEFAULT_PAYLOAD "PStr ''__''" "PInt 0" "PInt 1" "Fin 0" "Fin 1" "PInt 10001" 10001
      "PInt 100" "Fin 100"]
    by (simp add: stage_eval)
  have 5: "?v [(''xMin'', PInt 0), (''xMax'', PInt 1), (''samples'', PInt 2),
      (''expression'', PStr ''  ''), (''lineWidth'', PInt 100)]
     = Inl (Exn ValueError msg_empty)"
    using validation_order [of stub_lib "[(''xMin'', PInt 0), (''xMax'', PInt 1),
      (''samples'', PInt 2), (''expression'', PStr ''  ''), (''lineWidth'', PInt 100)]"
      DEFAULT_PAYLOAD "PStr ''  ''" "PInt 0" "PInt 1" "Fin 0" "Fin 1" "PInt 2" 2
      "PInt 100" "Fin 100"]
    by (simp add: stage_eval)
  have 6: "?v [(''xMin'', PInt 0), (''xMax'', PInt 1), (''samples'', PInt 2),
      (''expression'', PStr '' os ''), (''lineWidth'', PInt 100)]
     = Inl (Exn ValueError msg_denied)"
    using validation_order [of stub_lib "[(''xMin'', PInt 0), (''xMax'', PInt 1),
      (''samples'', PInt 2), (''expression'', PStr '' os ''), (''lineWidth'', PInt 100)]"
      DEFAULT_PAYLOAD "PStr '' os ''" "PInt 0" "PInt 1" "Fin 0" "Fin 1" "PInt 2" 2
      "PInt 100" "Fin 100"]
    by (simp add: stage_eval)
  have 7: "?v [(''xMin'', PInt 0), (''xMax'', PInt 1), (''samples'', PInt 2),
      (''expression'', PStr ''x''), (''lineWidth'', PStr ''thick'')]
     = Inl (Exn ValueError msg_line_width)"
    using validation_order [of stub_lib "[(''xMin'', PInt 0), (''xMax'', PInt 1),
      (''samples'', PInt 2), (''expression'', PStr ''x''), (''lineWidth'', PStr ''thick'')]"
      DEFAULT_PAYLOAD "PStr ''x''" "PInt 0" "PInt 1" "Fin 0" "Fin 1" "PInt 2" 2
      "PStr ''thick''" "Fin 100"]
    by (simp add: stage_eval)
  have 8: "?v [(''xMin'', PInt 0), (''xMax'', PInt 1), (''samples'', PInt 2),
      (''expression'', PStr ''x''), (''lineWidth'', PInt 100)]
     = Inl (Exn ValueError msg_line_width)"
    using validation_order [of stub_lib "[(''xMin'', PInt 0), (''xMax'', PInt 1),
      (''samples'', PInt 2), (''expression'', PStr ''x''), (''lineWidth'', PInt 100)]"
      DEFAULT_PAYLOAD "PStr ''x''" "PInt 0" "PInt 1" "Fin 0" "Fin 1" "PInt 2" 2
      "PInt 100" "Fin 100"]
    by (simp add: stage_eval)
  from 1 2 3 4 5 6 7 8 show ?thesis by (intro conjI)
qed

subsection \<open>The response of a POST request\<close>

text \<open>
  In a state whose next free reference is not that of \<open>DEFAULT_PAYLOAD\<close>, the response
  of \<open>do_POST\<close> is that of the normalizer and the validator on the contents of the
  objects, and then that of \<open>render_plot\<close> on the new object.
\<close>

lemma post_pipeline_fst:
  assumes "0 < next_ref s"
  shows "fst (post_pipeline L body s) =
     (case parse_payload L (heap s DEFAULT_PAYLOAD_ref) body of
        Inl e \<Rightarrow> Inl e
      | Inr p \<Rightarrow>
          (case validate_payload L (heap s DEFAULT_PAYLOAD_ref) p of
             Inl e \<Rightarrow> Inl e
           | Inr p' \<Rightarrow>
               (case fst (render_plot L (next_ref s)
                       (s\<lparr> next_ref := Suc (next_ref s),
                           heap := (heap s)(next_ref s := p') \<rparr>)) of
                  Inl e \<Rightarrow> Inl e
                | Inr (encoded, metadata) \<Rightarrow>
                    Inr (build_response 200 (Image_body (data_uri encoded) metadata False)))))"
  using assms
  by (auto simp: post_pipeline_def parse_payload_h_def new_dict_def validate_payload_h_def
      validate_payload_def DEFAULT_PAYLOAD_ref_def
      split: sum.splits prod.splits option.splits)

lemma do_POST_fst:
  assumes "0 < next_ref s" "content_length \<le> max_message_len"
  shows "fst (do_POST L content_length rfile s) =
     (case fst (post_pipeline L (if content_length \<noteq> 0 then rfile else '''') s) of
        Inl e \<Rightarrow> error_response e
      | Inr resp \<Rightarrow> resp)"
  using assms
  by (auto simp: do_POST_def Let_def split: sum.splits prod.splits)

subsection \<open>Rejection by the denylist\<close>

lemma denylisted_nonempty: "denylisted s \<Longrightarrow> strip s \<noteq> []"
proof
  assume d: "denylisted s" and e: "strip s = []"
  from d have "re_search_denylist (strip s)" by (simp only: denylist_of_stripped)
  with e show False by (simp add: re_search_denylist_def)
qed

text \<open>
  C5. Let the expression of a payload be a string \<open>s\<close>. If \<open>s\<close> contains \<open>__\<close> or \<open>import\<close>
  anywhere, or one of \<open>exec\<close>, \<open>eval\<close>, \<open>os\<close>, \<open>sys\<close> as a whole word, the validator fails
  with a \<open>ValueError\<close>, and with the message of the denylist when the interval and the
  sample count pass their checks, which come first. If \<open>s\<close> matches none of them, the
  validator never fails with that message. A POST request whose payload has such an
  expression is answered 400 with the message of the validator, whatever the library
  would make of the expression: the evaluator is not reached.
\<close>

theorem denylist_rejects:
  assumes "map_of p ''expression'' = Some (PStr s)"
  shows "(denylisted s \<longrightarrow> (\<exists>e. validate_payload L D p = Inl e \<and> is_ValueError e))
   \<and> (denylisted s \<and> try_interval L p \<noteq> None \<and> try_samples L p \<noteq> None \<longrightarrow>
        validate_payload L D p = Inl (Exn ValueError msg_denied))
   \<and> (\<not> denylisted s \<longrightarrow> validate_payload L D p \<noteq> Inl (Exn ValueError msg_denied))
   \<and> (denylisted s \<and> 0 < next_ref st \<and> content_length \<le> max_message_len
        \<and> content_length \<noteq> 0
        \<and> parse_payload L (heap st DEFAULT_PAYLOAD_ref) body = Inr p \<longrightarrow>
        (\<exists>e. validate_payload L (heap st DEFAULT_PAYLOAD_ref) p = Inl e
           \<and> fst (do_POST L content_length body st)
               = build_response 400 (Error_body (exn_str e))))"
proof -
  have str: "py_str L (PStr s) = s" by simp
  have denied: "validate_payload L D' p = Inl (Exn ValueError msg_denied)"
    if "denylisted s" "try_interval L p \<noteq> None" "try_samples L p \<noteq> None" for D'
    using validate_denied_fails [of L p "PStr s" D'] assms that
      denylisted_nonempty [of s] denylist_of_stripped [of s]
    by (simp only: str) blast
  have fails: "\<exists>e. validate_payload L D' p = Inl e \<and> is_ValueError e"
    if d: "denylisted s" for D'
  proof (cases "try_interval L p = None")
    case True
    then show ?thesis by (simp add: validate_interval_fails)
  next
    case False
    note i = this
    show ?thesis
    proof (cases "try_samples L p = None")
      case True
      with i show ?thesis by (simp add: validate_samples_fails)
    next
      case False
      with i d show ?thesis by (simp add: denied)
    qed
  qed
  have 3: "validate_payload L D p \<noteq> Inl (Exn ValueError msg_denied)" if "\<not> denylisted s"
    using validate_not_denied [of p "PStr s" L D] assms that denylist_of_stripped [of s]
    by (simp only: str) blast
  have 4: "\<exists>e. validate_payload L (heap st DEFAULT_PAYLOAD_ref) p = Inl e
           \<and> fst (do_POST L content_length body st)
               = build_response 400 (Error_body (exn_str e))"
    if d: "denylisted s" and n: "0 < next_ref st"
      and c: "content_length \<le> max_message_len" "content_length \<noteq> 0"
      and b: "parse_payload L (heap st DEFAULT_PAYLOAD_ref) body = Inr p"
  proof -
    from fails [OF d] obtain e
      where e: "validate_payload L (heap st DEFAULT_PAYLOAD_ref) p = Inl e" "is_ValueError e"
      by blast
    from n b e(1) c(2) have "fst (post_pipeline L (if content_length \<noteq> 0 then body else '''') st) = Inl e"
      by (simp add: post_pipeline_fst)
    with n c(1) e(2) have "fst (do_POST L content_length body st)
        = build_response 400 (Error_body (exn_str e))"
      by (simp add: do_POST_fst error_response_def)
    with e(1) show ?thesis by blast
  qed
  from fails denied 3 4 show ?thesis by blast
qed

text \<open>
  The body \<^verbatim>\<open>{"expression": "np.os"}\<close> is answered 400 with the message of the denylist;
  \<open>np.cos(x)\<close> passes the check.
\<close>

theorem denylist_rejects_witness:
  \<open>fst (do_POST
      (loads_lib ''{"expression": "np.os"}'' (PDict [(''expression'', PStr ''np.os'')]))
      23 ''{"expression": "np.os"}'' init_state)
     = build_response 400 (Error_body msg_denied)
   \<and> validate_payload stub_lib DEFAULT_PAYLOAD
       (AList.update ''expression'' (PStr ''np.cos(x)'') DEFAULT_PAYLOAD)
     \<noteq> Inl (Exn ValueError msg_denied)\<close>
proof -
  let ?L = \<open>loads_lib ''{"expression": "np.os"}'' (PDict [(''expression'', PStr ''np.os'')])\<close>
  let ?p = "AList.update ''expression'' (PStr ''np.os'') DEFAULT_PAYLOAD"
  let ?q = "AList.update ''expression'' (PStr ''np.cos(x)'') DEFAULT_PAYLOAD"
  have d0: "heap init_state DEFAULT_PAYLOAD_ref = DEFAULT_PAYLOAD"
    by (simp add: init_state_def)
  have parse: \<open>parse_payload ?L (heap init_state DEFAULT_PAYLOAD_ref) ''{"expression": "np.os"}''
      = Inr ?p\<close>
    by (simp add: d0) (simp add: parse_payload_def dict_update_def loads_lib_def)
  have m: "map_of ?p ''expression'' = Some (PStr ''np.os'')"
    by (simp add: update_conv')
  have i: "try_interval ?L ?p \<noteq> None"
    by (simp add: try_interval_def update_conv' default_defs fl_ge_def loads_lib_def stub_lib_def)
  have n: "try_samples ?L ?p \<noteq> None"
    by (simp add: try_samples_def update_conv' default_defs loads_lib_def stub_lib_def)
  have d: "denylisted ''np.os''"
    by (simp add: stage_eval)
  have st: "0 < next_ref init_state" "(23::int) \<le> max_message_len" "(23::int) \<noteq> 0"
    by (simp_all add: init_state_def max_message_len_def)
  note T = denylist_rejects [where p = ?p and s = "''np.os''" and L = ?L
      and D = "heap init_state DEFAULT_PAYLOAD_ref" and st = init_state
      and content_length = 23 and body = \<open>''{"expression": "np.os"}''\<close>, OF m]
  from T d i n have v: "validate_payload ?L (heap init_state DEFAULT_PAYLOAD_ref) ?p
      = Inl (Exn ValueError msg_denied)"
    by blast
  from T d st parse obtain e
    where e: "validate_payload ?L (heap init_state DEFAULT_PAYLOAD_ref) ?p = Inl e"
      \<open>fst (do_POST ?L 23 ''{"expression": "np.os"}'' init_state)
        = build_response 400 (Error_body (exn_str e))\<close>
    by blast
  from v e(1) have "e = Exn ValueError msg_denied" by simp
  with e(2) have a: \<open>fst (do_POST ?L 23 ''{"expression": "np.os"}'' init_state)
     = build_response 400 (Error_body msg_denied)\<close>
    by simp
  have mq: "map_of ?q ''expression'' = Some (PStr ''np.cos(x)'')"
    by (simp add: update_conv')
  have nd: "\<not> denylisted ''np.cos(x)''"
    by (simp add: stage_eval)
  from denylist_rejects [where p = ?q and s = "''np.cos(x)''" and L = stub_lib
      and D = DEFAULT_PAYLOAD, OF mq] nd
  have b: "validate_payload stub_lib DEFAULT_PAYLOAD ?q \<noteq> Inl (Exn ValueError msg_denied)"
    by blast
  from a b show ?thesis by (intro conjI)
qed

subsection \<open>The merge of the normalizer\<close>

lemma map_of_dict_update:
  "map_of (dict_update d other) = map_of d ++ map_of (rev other)"
proof (induction other arbitrary: d)
  case Nil
  show ?case by (simp add: dict_update_def)
next
  case (Cons kv other)
  obtain k v where kv: "kv = (k, v)" by (cases kv)
  have "dict_update d (kv # other) = dict_update (AList.update k v d) other"
    by (simp add: dict_update_def kv)
  then have "map_of (dict_update d (kv # other))
      = map_of (AList.update k v d) ++ map_of (rev other)"
    using Cons.IH by simp
  also have "\<dots> = map_of d ++ map_of (rev (kv # other))"
    by (rule ext) (simp add: update_conv' kv map_add_def split: option.splits)
  finally show ?case .
qed


lemma keys_dict_update:
  "fst ` set (dict_update d other) = fst ` set d \<union> fst ` set other"
proof (induction other arbitrary: d)
  case Nil
  show ?case by (simp add: dict_update_def)
next
  case (Cons kv other)
  obtain k v where kv: "kv = (k, v)" by (cases kv)
  have "dict_update d (kv # other) = dict_update (AList.update k v d) other"
    by (simp add: dict_update_def kv)
  then show ?case using Cons.IH [of "AList.update k v d"]
    by (auto simp: dom_update kv)
qed

lemma map_of_rev_distinct:
  "distinct (map fst kvs) \<Longrightarrow> map_of (rev kvs) = map_of kvs"
proof (induction kvs)
  case Nil
  show ?case by simp
next
  case (Cons kv kvs)
  obtain k v where kv: "kv = (k, v)" by (cases kv)
  from Cons.prems kv have "map_of kvs k = None"
    by (simp add: map_of_eq_None_iff)
  with Cons show ?case
    by (auto simp: kv map_add_def fun_eq_iff split: option.splits)
qed

lemma map_of_filter_non_null:
  "distinct (map fst kvs) \<Longrightarrow>
   map_of (filter (\<lambda>(k, v). v \<noteq> PNone) kvs) k =
     (case map_of kvs k of None \<Rightarrow> None | Some v \<Rightarrow> if v \<noteq> PNone then Some v else None)"
proof (induction kvs)
  case Nil
  show ?case by simp
next
  case (Cons kv kvs)
  obtain k' v' where kv: "kv = (k', v')" by (cases kv)
  from Cons.prems kv have n: "map_of kvs k' = None"
    by (simp add: map_of_eq_None_iff)
  have "map_of (filter (\<lambda>(k, v). v \<noteq> PNone) kvs) k' = None"
    using n by (auto simp: map_of_eq_None_iff)
  with Cons n show ?case
    by (auto simp: kv split: option.splits)
qed

text \<open>
  C4. The normalizer returns the contents of a new \<open>dict\<close>. For an empty body they are
  the defaults. For a body that parses to a \<open>dict\<close>, every key has the incoming value
  when that is present and not \<open>None\<close>, and the default otherwise; the keys of the result
  are those of the defaults together with the incoming keys whose value is not \<open>None\<close>,
  so a key of the input that is not in the defaults is kept, not dropped.
\<close>

theorem parse_payload_merge:
  "parse_payload L D [] = Inr D
   \<and> (body \<noteq> [] \<and> json_loads L body = Inr (PDict kvs) \<and> distinct (map fst kvs) \<longrightarrow>
       (\<exists>p. parse_payload L D body = Inr p
          \<and> (\<forall>k. map_of p k =
                (case map_of kvs k of
                   None \<Rightarrow> map_of D k
                 | Some v \<Rightarrow> if v \<noteq> PNone then Some v else map_of D k))
          \<and> fst ` set p = fst ` set D \<union> {k. \<exists>v. map_of kvs k = Some v \<and> v \<noteq> PNone}))"
proof -
  have 1: "parse_payload L D [] = Inr D" by (simp add: parse_payload_def)
  have 2: "\<exists>p. parse_payload L D body = Inr p
          \<and> (\<forall>k. map_of p k =
                (case map_of kvs k of
                   None \<Rightarrow> map_of D k
                 | Some v \<Rightarrow> if v \<noteq> PNone then Some v else map_of D k))
          \<and> fst ` set p = fst ` set D \<union> {k. \<exists>v. map_of kvs k = Some v \<and> v \<noteq> PNone}"
    if b: "body \<noteq> []" and j: "json_loads L body = Inr (PDict kvs)"
      and d: "distinct (map fst kvs)"
  proof -
    let ?f = "filter (\<lambda>(k, v). v \<noteq> PNone) kvs"
    let ?p = "dict_update D ?f"
    have df: "distinct (map fst ?f)" using d by (simp add: distinct_map_filter)
    have p: "parse_payload L D body = Inr ?p"
      using b j by (simp add: parse_payload_def)
    have m: "map_of ?p k =
                (case map_of kvs k of
                   None \<Rightarrow> map_of D k
                 | Some v \<Rightarrow> if v \<noteq> PNone then Some v else map_of D k)" for k
      by (simp add: map_of_dict_update map_of_rev_distinct [OF df]
          map_add_def map_of_filter_non_null [OF d] split: option.splits)
    have "fst ` set ?f = {k. \<exists>v. map_of kvs k = Some v \<and> v \<noteq> PNone}"
      using d by (auto simp: image_iff intro: map_of_is_SomeI dest: map_of_SomeD)
    then have k: "fst ` set ?p = fst ` set D \<union> {k. \<exists>v. map_of kvs k = Some v \<and> v \<noteq> PNone}"
      by (simp add: keys_dict_update)
    from p m k show ?thesis by blast
  qed
  from 1 2 show ?thesis by blast
qed

text \<open>
  A body with a known key, a known key set to \<open>null\<close> and an unknown key.
\<close>

theorem parse_payload_merge_witness:
  \<open>\<exists>p. parse_payload
        (loads_lib ''{"samples": 3, "title": null, "foo": 1}''
           (PDict [(''samples'', PInt 3), (''title'', PNone), (''foo'', PInt 1)]))
        DEFAULT_PAYLOAD ''{"samples": 3, "title": null, "foo": 1}'' = Inr p
      \<and> map_of p ''samples'' = Some (PInt 3)
      \<and> map_of p ''title'' = Some (PStr title_default)
      \<and> map_of p ''xLabel'' = Some (PStr ''x'')
      \<and> map_of p ''foo'' = Some (PInt 1)
      \<and> ''foo'' \<in> fst ` set p\<close>
proof -
  let ?b = \<open>''{"samples": 3, "title": null, "foo": 1}''\<close>
  let ?kvs = "[(''samples'', PInt 3), (''title'', PNone), (''foo'', PInt 1)]"
  have h: "?b \<noteq> [] \<and> json_loads (loads_lib ?b (PDict ?kvs)) ?b = Inr (PDict ?kvs)
      \<and> distinct (map fst ?kvs)"
    by (simp add: loads_lib_def)
  from parse_payload_merge [of "loads_lib ?b (PDict ?kvs)" DEFAULT_PAYLOAD ?b ?kvs] h
  obtain p where p: "parse_payload (loads_lib ?b (PDict ?kvs)) DEFAULT_PAYLOAD ?b = Inr p"
    and m: "\<And>k. map_of p k =
                (case map_of ?kvs k of
                   None \<Rightarrow> map_of DEFAULT_PAYLOAD k
                 | Some v \<Rightarrow> if v \<noteq> PNone then Some v else map_of DEFAULT_PAYLOAD k)"
    and k: "fst ` set p = fst ` set DEFAULT_PAYLOAD
        \<union> {k. \<exists>v. map_of ?kvs k = Some v \<and> v \<noteq> PNone}"
    by blast
  have 1: "map_of p ''samples'' = Some (PInt 3)" by (simp add: m)
  have 2: "map_of p ''title'' = Some (PStr title_default)"
    by (simp add: m DEFAULT_PAYLOAD_def)
  have 3: "map_of p ''xLabel'' = Some (PStr ''x'')"
    by (simp add: m DEFAULT_PAYLOAD_def)
  have 4: "map_of p ''foo'' = Some (PInt 1)" by (simp add: m)
  have 5: "''foo'' \<in> fst ` set p" by (simp add: k)
  from p 1 2 3 4 5 show ?thesis by blast
qed

text \<open>
  The body \<^verbatim>\<open>{"foo": 1}\<close>: the key \<open>foo\<close> is not a key of the defaults, and the
  result holds it.
\<close>

theorem parse_payload_keeps_unknown_key:
  \<open>parse_payload (loads_lib ''{"foo": 1}'' (PDict [(''foo'', PInt 1)]))
      DEFAULT_PAYLOAD ''{"foo": 1}''
     = Inr (DEFAULT_PAYLOAD @ [(''foo'', PInt 1)])
   \<and> fst ` set (DEFAULT_PAYLOAD @ [(''foo'', PInt 1)]) \<noteq> fst ` set DEFAULT_PAYLOAD\<close>
proof -
  have 1: \<open>parse_payload (loads_lib ''{"foo": 1}'' (PDict [(''foo'', PInt 1)]))
      DEFAULT_PAYLOAD ''{"foo": 1}''
     = Inr (DEFAULT_PAYLOAD @ [(''foo'', PInt 1)])\<close>
    by (simp add: parse_payload_def loads_lib_def dict_update_def DEFAULT_PAYLOAD_def)
  have a: "''foo'' \<notin> fst ` set DEFAULT_PAYLOAD" by (simp add: DEFAULT_PAYLOAD_def)
  have b: "''foo'' \<in> fst ` set (DEFAULT_PAYLOAD @ [(''foo'', PInt 1)])" by simp
  have 2: "fst ` set (DEFAULT_PAYLOAD @ [(''foo'', PInt 1)]) \<noteq> fst ` set DEFAULT_PAYLOAD"
  proof
    assume eq: "fst ` set (DEFAULT_PAYLOAD @ [(''foo'', PInt 1)]) = fst ` set DEFAULT_PAYLOAD"
    from b have "''foo'' \<in> fst ` set DEFAULT_PAYLOAD" unfolding eq .
    with a show False by (rule notE)
  qed
  from 1 2 show ?thesis by (intro conjI)
qed

subsection \<open>Bodies that are no object\<close>

text \<open>
  A body that \<open>json.loads\<close> cannot decode is answered 400 with the message of the
  normalizer, which ends with that of the decoder. A body that decodes to anything but
  a \<open>dict\<close> is answered 500.
\<close>

lemma non_dict_body:
  assumes "body \<noteq> []" "json_loads L body = Inr v" "\<forall>d. v \<noteq> PDict d"
  shows "parse_payload L D body = Inl (Exn AttributeError (msg_no_items (type_name v)))"
  using assms by (cases v) (simp_all add: parse_payload_def)

lemma non_dict_body_500:
  assumes "body \<noteq> []" "json_loads L body = Inr v" "\<forall>d. v \<noteq> PDict d"
    "0 < next_ref s" "content_length \<le> max_message_len" "content_length \<noteq> 0"
  shows "fst (do_POST L content_length body s)
     = build_response 500 (Error_body (''Erreur interne: '' @ msg_no_items (type_name v)))"
  using assms non_dict_body [OF assms(1,2,3), of "heap s DEFAULT_PAYLOAD_ref"]
  by (simp add: do_POST_fst post_pipeline_fst error_response_def)

lemma malformed_body_400:
  assumes "body \<noteq> []" "json_loads L body = Inl (Exn JSONDecodeError m)"
    "0 < next_ref s" "content_length \<le> max_message_len" "content_length \<noteq> 0"
  shows "parse_payload L D body = Inl (Exn ValueError (msg_json @ m))
     \<and> fst (do_POST L content_length body s)
         = build_response 400 (Error_body (msg_json @ m))"
  using assms
  by (simp add: do_POST_fst post_pipeline_fst error_response_def parse_payload_def)

text \<open>
  C3. The bodies \<^verbatim>\<open>5\<close> and \<^verbatim>\<open>[1,2]\<close> are valid JSON and no object. \<open>json.loads\<close> decodes
  them, \<open>data.items()\<close> then raises an \<open>AttributeError\<close>, which is no \<open>ValueError\<close>: the
  normalizer does not fail with its own message, and the request is answered 500.
\<close>

theorem non_object_body_internal_error:
  "parse_payload (loads_lib ''5'' (PInt 5)) DEFAULT_PAYLOAD ''5''
     = Inl (Exn AttributeError (msg_no_items ''int''))
   \<and> fst (do_POST (loads_lib ''5'' (PInt 5)) 1 ''5'' init_state)
     = build_response 500 (Error_body (''Erreur interne: '' @ msg_no_items ''int''))
   \<and> parse_payload (loads_lib ''[1,2]'' (PList [PInt 1, PInt 2])) DEFAULT_PAYLOAD ''[1,2]''
     = Inl (Exn AttributeError (msg_no_items ''list''))
   \<and> fst (do_POST (loads_lib ''[1,2]'' (PList [PInt 1, PInt 2])) 5 ''[1,2]'' init_state)
     = build_response 500 (Error_body (''Erreur interne: '' @ msg_no_items ''list''))"
proof -
  have s: "0 < next_ref init_state" by (simp add: init_state_def)
  have a: "json_loads (loads_lib ''5'' (PInt 5)) ''5'' = Inr (PInt 5)"
    by (simp add: loads_lib_def)
  have b: "json_loads (loads_lib ''[1,2]'' (PList [PInt 1, PInt 2])) ''[1,2]''
      = Inr (PList [PInt 1, PInt 2])"
    by (simp add: loads_lib_def)
  have 1: "parse_payload (loads_lib ''5'' (PInt 5)) DEFAULT_PAYLOAD ''5''
     = Inl (Exn AttributeError (msg_no_items ''int''))"
    using non_dict_body [OF _ a, of DEFAULT_PAYLOAD] by simp
  have 2: "fst (do_POST (loads_lib ''5'' (PInt 5)) 1 ''5'' init_state)
     = build_response 500 (Error_body (''Erreur interne: '' @ msg_no_items ''int''))"
    using non_dict_body_500 [OF _ a _ s, of 1] by (simp add: max_message_len_def)
  have 3: "parse_payload (loads_lib ''[1,2]'' (PList [PInt 1, PInt 2])) DEFAULT_PAYLOAD ''[1,2]''
     = Inl (Exn AttributeError (msg_no_items ''list''))"
    using non_dict_body [OF _ b, of DEFAULT_PAYLOAD] by simp
  have 4: "fst (do_POST (loads_lib ''[1,2]'' (PList [PInt 1, PInt 2])) 5 ''[1,2]'' init_state)
     = build_response 500 (Error_body (''Erreur interne: '' @ msg_no_items ''list''))"
    using non_dict_body_500 [OF _ b _ s, of 5] by (simp add: max_message_len_def)
  from 1 2 3 4 show ?thesis by (intro conjI)
qed

subsection \<open>The defaults over a run of the process\<close>

text \<open>
  The normalizer never returns the reference of \<open>DEFAULT_PAYLOAD\<close> but that of a new
  object, and the validator changes the one object it is given and no other.
\<close>

lemma parse_payload_h_fresh:
  assumes "parse_payload_h L body s = (res, s')" "0 < next_ref s"
  shows "heap s' DEFAULT_PAYLOAD_ref = heap s DEFAULT_PAYLOAD_ref"
    and "0 < next_ref s'"
    and "res \<noteq> Inr DEFAULT_PAYLOAD_ref"
  using assms
  by (auto simp: parse_payload_h_def new_dict_def DEFAULT_PAYLOAD_ref_def split: sum.splits)

lemma validate_payload_h_other:
  assumes "validate_payload_h L r s = (res, s')"
  shows "heap s' = (heap s)(r := fst (validate_payload_st L (heap s DEFAULT_PAYLOAD_ref) (heap s r)))"
    and "next_ref s' = next_ref s"
  using assms
  by (auto simp: validate_payload_h_def split: prod.splits option.splits)

text \<open>
  \<open>render_plot\<close> changes the objects only through the evaluation of the expression. With
  a library whose evaluation leaves \<open>DEFAULT_PAYLOAD\<close> alone, the object holds its initial
  contents after any sequence of requests.
\<close>

lemma eval_store_keeps:
  "eval_keeps_defaults L \<Longrightarrow>
     eval_store L ev x h DEFAULT_PAYLOAD_ref = h DEFAULT_PAYLOAD_ref"
  by (cases ev) (simp_all add: eval_store_def eval_keeps_defaults_def)

lemma render_plot_snd:
  "snd (render_plot L r s) = s
   \<or> (\<exists>ev x. snd (render_plot L r s) = s\<lparr> heap := eval_store L ev x (heap s) \<rparr>)"
  unfolding render_plot_def Let_def
  by (simp split: sum.splits prod.splits) blast

lemma render_plot_intact:
  assumes "eval_keeps_defaults L" "defaults_intact s"
  shows "defaults_intact (snd (render_plot L r s))"
  using render_plot_snd [of L r s] assms
  by (auto simp: defaults_intact_def eval_store_keeps)

lemma post_pipeline_intact:
  assumes k: "eval_keeps_defaults L" and "defaults_intact s"
  shows "defaults_intact (snd (post_pipeline L body s))"
proof -
  obtain res1 s1 where p: "parse_payload_h L body s = (res1, s1)"
    by (cases "parse_payload_h L body s")
  from assms have n: "0 < next_ref s" by (simp add: defaults_intact_def)
  note f = parse_payload_h_fresh [OF p n]
  from f(1,2) assms have i1: "defaults_intact s1" by (simp add: defaults_intact_def)
  show ?thesis
  proof (cases res1)
    case (Inl e)
    with p i1 show ?thesis by (simp add: post_pipeline_def)
  next
    case (Inr r)
    with f(3) have r: "r \<noteq> DEFAULT_PAYLOAD_ref" by simp
    obtain res2 s2 where v: "validate_payload_h L r s1 = (res2, s2)"
      by (cases "validate_payload_h L r s1")
    from validate_payload_h_other(1,2) [OF v] r i1 have i2: "defaults_intact s2"
      by (simp add: defaults_intact_def)
    show ?thesis
    proof (cases res2)
      case (Inl e)
      with p Inr v i2 show ?thesis by (simp add: post_pipeline_def)
    next
      case r2: (Inr r')
      obtain res3 s3 where d: "render_plot L r' s2 = (res3, s3)"
        by (cases "render_plot L r' s2")
      from render_plot_intact [OF k i2, of r'] d have "defaults_intact s3" by simp
      with p Inr v r2 d show ?thesis
        by (simp add: post_pipeline_def split: sum.splits prod.splits)
    qed
  qed
qed

lemma do_POST_snd:
  "snd (do_POST L content_length rfile s) =
     (if content_length > max_message_len then s
      else snd (post_pipeline L (if content_length \<noteq> 0 then rfile else '''') s))"
  by (cases "post_pipeline L (if content_length \<noteq> 0 then rfile else '''') s")
    (auto simp: do_POST_def Let_def split: sum.splits)

lemma do_GET_snd: "snd (do_GET L s) = snd (render_plot L DEFAULT_PAYLOAD_ref s)"
  by (simp add: do_GET_def split: sum.splits prod.splits)

lemma handle_intact:
  assumes k: "eval_keeps_defaults L" and "defaults_intact s"
  shows "defaults_intact (handle L req s)"
proof (cases req)
  case OPTIONS
  with assms show ?thesis by (simp add: do_OPTIONS_def)
next
  case GET
  with assms show ?thesis by (simp add: do_GET_snd render_plot_intact)
next
  case (POST content_length rfile)
  from assms
  have "defaults_intact (snd (post_pipeline L (if content_length \<noteq> 0 then rfile else '''') s))"
    by (rule post_pipeline_intact)
  with assms POST show ?thesis by (simp add: do_POST_snd)
qed

lemma run_intact:
  "eval_keeps_defaults L \<Longrightarrow> defaults_intact s \<Longrightarrow> defaults_intact (run L reqs s)"
  by (induction reqs arbitrary: s) (simp_all add: handle_intact)

lemma init_intact: "defaults_intact init_state"
  by (simp add: defaults_intact_def init_state_def)

lemma defaults_kept_without_effect:
  assumes "eval_keeps_defaults L"
  shows "heap (run L reqs init_state) DEFAULT_PAYLOAD_ref = DEFAULT_PAYLOAD"
  using run_intact [OF assms init_intact, of reqs] by (simp add: defaults_intact_def)

subsection \<open>An expression that reaches the defaults\<close>

lemma escape_not_denied: "\<not> re_search_denylist (strip escape_expression)"
  by (simp add: escape_expression_def strip_def is_space_def re_search_denylist_def
      match_here_def word_here_def is_word_def)

lemma escape_strip: "strip escape_expression = escape_expression"
  by (simp add: escape_expression_def strip_def is_space_def)

lemma escape_nonempty: "escape_expression \<noteq> []"
  by (simp add: escape_expression_def)

lemma escape_body_nonempty: "escape_body \<noteq> []"
  by (simp add: escape_body_def)

lemma escape_parse:
  assumes "json_loads L body = Inr escape_payload" "body \<noteq> []"
  shows "parse_payload L DEFAULT_PAYLOAD body =
     Inr (AList.update ''samples'' (PInt 2) (AList.update ''xMax'' (PInt 1)
       (AList.update ''xMin'' (PInt 0)
         (AList.update ''expression'' (PStr escape_expression) DEFAULT_PAYLOAD))))"
  using assms by (simp add: parse_payload_def escape_payload_def dict_update_def)

lemma escape_validate:
  "validate_payload L DEFAULT_PAYLOAD
     (AList.update ''samples'' (PInt 2) (AList.update ''xMax'' (PInt 1)
       (AList.update ''xMin'' (PInt 0)
         (AList.update ''expression'' (PStr escape_expression) DEFAULT_PAYLOAD))))
   = Inr escape_validated"
proof -
  have s: "strip ''x'' = ''x''" "strip ''f(x)'' = ''f(x)''" "strip title_default = title_default"
    by (simp_all add: strip_def is_space_def title_default_def)
  show ?thesis
    using escape_not_denied escape_nonempty
    by (simp add: validate_payload_def validate_payload_st_def try_interval_def
        try_samples_def try_line_width_def getitem_def dict_get_def display_text_def
        color_text_def marker_text_def fl_ge_def double_0_1_def Let_def escape_strip
        DEFAULT_PAYLOAD_def escape_validated_def s)
qed

lemma escape_validate_st:
  "validate_payload_st L DEFAULT_PAYLOAD
     (AList.update ''samples'' (PInt 2) (AList.update ''xMax'' (PInt 1)
       (AList.update ''xMin'' (PInt 0)
         (AList.update ''expression'' (PStr escape_expression) DEFAULT_PAYLOAD))))
   = (escape_validated, None)"
  using escape_validate [of L]
  by (simp add: validate_payload_def split: prod.splits option.splits)

lemma escape_getitem:
  "getitem escape_validated ''xMin'' = Inr (PFloat (Fin 0))"
  "getitem escape_validated ''xMax'' = Inr (PFloat (Fin 1))"
  "getitem escape_validated ''samples'' = Inr (PInt 2)"
  "getitem escape_validated ''expression'' = Inr (PStr escape_expression)"
  by (simp_all add: getitem_def escape_validated_def)

text \<open>
  With any library that decodes the body, gives the sample points and lets the
  evaluation of the expression replace the contents of \<open>DEFAULT_PAYLOAD\<close> by \<open>d\<close>, the
  object holds \<open>d\<close> after the request: the normalizer and the validator let the
  expression through, whatever the other functions of the library do.
\<close>

lemma escape_changes_defaults:
  assumes "json_loads L body = Inr escape_payload" "body \<noteq> []"
    "content_length \<noteq> 0" "content_length \<le> max_message_len"
    "np_linspace L (PFloat (Fin 0)) (PFloat (Fin 1)) (PInt 2) = Inr x"
    "eval_effect L escape_expression x = (\<lambda>h. h(DEFAULT_PAYLOAD_ref := d))"
  shows "heap (snd (do_POST L content_length body init_state)) DEFAULT_PAYLOAD_ref = d"
  using assms(3,4,5,6)
  by (simp add: do_POST_def post_pipeline_def Let_def parse_payload_h_def
      validate_payload_h_def new_dict_def init_state_def DEFAULT_PAYLOAD_ref_def
      escape_parse [OF assms(1,2)] escape_validate_st render_plot_def escape_getitem
      eval_store_def split: sum.splits prod.splits)

text \<open>
  C9. The normalizer returns a new object and the validator assigns to that object
  only, but the evaluation of the expression can reach \<open>DEFAULT_PAYLOAD\<close>. The request
  \<open>POST\<close> with the body \<open>escape_body\<close> (189 bytes) passes the validator, and evaluating its
  expression calls \<open>clear()\<close> on \<open>DEFAULT_PAYLOAD\<close>: after this one request the object is
  empty, no longer its initial value, and a \<open>GET\<close> request that follows raises
  \<open>KeyError\<close> at \<open>payload["xMin"]\<close>.
\<close>

theorem escape_empties_defaults:
  "heap (run escape_lib [POST 189 escape_body] init_state) DEFAULT_PAYLOAD_ref = []
   \<and> heap (run escape_lib [POST 189 escape_body] init_state) DEFAULT_PAYLOAD_ref
     \<noteq> DEFAULT_PAYLOAD
   \<and> fst (do_GET escape_lib (run escape_lib [POST 189 escape_body] init_state))
     = Inl (Exn KeyError ([CHR 0x27] @ ''xMin'' @ [CHR 0x27]))"
proof -
  have 1: "heap (run escape_lib [POST 189 escape_body] init_state) DEFAULT_PAYLOAD_ref = []"
    using escape_changes_defaults
      [of escape_lib escape_body 189 "NdArray [2] [Fin 0, Fin 1]" "[]"]
      escape_body_nonempty
    by (simp add: escape_lib_def max_message_len_def)
  have 2: "[] \<noteq> DEFAULT_PAYLOAD" by (simp add: DEFAULT_PAYLOAD_def)
  have 3: "fst (do_GET L s) = Inl (Exn KeyError ([CHR 0x27] @ ''xMin'' @ [CHR 0x27]))"
    if "heap s DEFAULT_PAYLOAD_ref = []" for L s
    using that by (simp add: do_GET_def render_plot_def getitem_def)
  from 1 2 3 [OF 1] show ?thesis by simp
qed

subsection \<open>Names in the evaluator\<close>











lemmas eval_defs =
  evaluate_expression_def builtin_eval_def as_array_def compile_lib_def stub_lib_def
  safe_locals_def
  SAFE_FUNCTIONS_def lookup_name_def eval_globals_def eval_builtins_def signed_inf_def




subsection \<open>The result of the evaluator\<close>

text \<open>
  C2. Let the sample points have at least one dimension. A raw result that is a Python
  \<open>float\<close>, or an \<open>int\<close> of size at most \<open>2 ^ 53\<close>, is converted to an array of no dimension
  that holds it; the shapes differ and the evaluator fails with the message of the
  shape check. Nothing is broadcast. The same holds for every raw result whose
  conversion is an array of no dimension. When the conversion itself raises, its
  exception leaves the evaluator as it is.
\<close>

theorem scalar_result_rejected:
  "builtin_eval L expression eval_globals eval_builtins (safe_locals x) = Inr raw
   \<and> nd_shape x \<noteq> [] \<longrightarrow>
     (raw = EFloat f \<longrightarrow>
        as_array L raw = Inr (NdArray [] [f])
        \<and> evaluate_expression L expression x = Inl (Exn ValueError msg_shape))
   \<and> (raw = EInt i \<and> \<bar>i\<bar> \<le> 2 ^ 53 \<longrightarrow>
        as_array L raw = Inr (NdArray [] [Fin (real_of_int i)])
        \<and> evaluate_expression L expression x = Inl (Exn ValueError msg_shape))
   \<and> (as_array L raw = Inr a \<and> nd_shape a = [] \<longrightarrow>
        evaluate_expression L expression x = Inl (Exn ValueError msg_shape))
   \<and> (as_array L raw = Inl exc \<longrightarrow> evaluate_expression L expression x = Inl exc)"
  by (auto simp: evaluate_expression_def as_array_def)

text \<open>
  The expressions \<open>pi\<close> and \<open>2\<close> over three sample points fail the shape check. The value
  of \<open>10**400\<close> is an \<open>int\<close> too large for a \<open>float\<close>: the conversion raises \<open>OverflowError\<close>,
  and so does the evaluator.
\<close>

theorem scalar_result_rejected_witness:
  "evaluate_expression (compile_lib ''pi'' (Name ''pi'')) ''pi''
     (NdArray [3] [Fin (- 1), Fin 0, Fin 1])
   = Inl (Exn ValueError msg_shape)
   \<and> evaluate_expression (compile_lib ''2'' (Constant (EInt 2))) ''2''
     (NdArray [3] [Fin (- 1), Fin 0, Fin 1])
   = Inl (Exn ValueError msg_shape)
   \<and> evaluate_expression
       ((compile_lib ''10**400'' (BinOp (Constant (EInt 10)) Pow (Constant (EInt 400))))
          \<lparr> py_operator :=
              (\<lambda>op a b s. if op = Pow \<and> a = EInt 10 \<and> b = EInt 400
                 then (Inr (EInt (10 ^ 400)), s) else (Inl (Exn TypeError ''''), s)),
            np_array_float :=
              (\<lambda>v. if v = EInt (10 ^ 400)
                 then Inl (Exn OverflowError ''int too large to convert to float'')
                 else Inl (Exn TypeError '''')) \<rparr>)
       ''10**400'' (NdArray [3] [Fin (- 1), Fin 0, Fin 1])
   = Inl (Exn OverflowError ''int too large to convert to float'')"
proof -
  let ?L = "compile_lib ''pi'' (Name ''pi'')"
  let ?M = "compile_lib ''2'' (Constant (EInt 2))"
  let ?N = "(compile_lib ''10**400'' (BinOp (Constant (EInt 10)) Pow (Constant (EInt 400))))
          \<lparr> py_operator :=
              (\<lambda>op a b s. if op = Pow \<and> a = EInt 10 \<and> b = EInt 400
                 then (Inr (EInt (10 ^ 400)), s) else (Inl (Exn TypeError ''''), s)),
            np_array_float :=
              (\<lambda>v. if v = EInt (10 ^ 400)
                 then Inl (Exn OverflowError ''int too large to convert to float'')
                 else Inl (Exn TypeError '''')) \<rparr>"
  let ?x = "NdArray [3] [Fin (- 1), Fin 0, Fin 1]"
  have r: "builtin_eval ?L ''pi'' eval_globals eval_builtins (safe_locals ?x)
      = Inr (EFloat (Fin math_pi))"
    by (simp add: eval_defs)
  from scalar_result_rejected [of ?L "''pi''" ?x "EFloat (Fin math_pi)" "Fin math_pi"] r
  have 1: "evaluate_expression ?L ''pi'' ?x = Inl (Exn ValueError msg_shape)" by simp
  have q: "builtin_eval ?M ''2'' eval_globals eval_builtins (safe_locals ?x) = Inr (EInt 2)"
    by (simp add: eval_defs)
  from scalar_result_rejected [of ?M "''2''" ?x "EInt 2" _ 2] q
  have 2: "evaluate_expression ?M ''2'' ?x = Inl (Exn ValueError msg_shape)" by simp
  have big: "\<not> \<bar>10 ^ 400 :: int\<bar> \<le> 2 ^ 53" by simp
  have p: "builtin_eval ?N ''10**400'' eval_globals eval_builtins (safe_locals ?x)
      = Inr (EInt (10 ^ 400))"
    by (simp add: builtin_eval_def compile_lib_def)
  have c: "as_array ?N (EInt (10 ^ 400))
      = Inl (Exn OverflowError ''int too large to convert to float'')"
    using big by (simp add: as_array_def)
  from scalar_result_rejected [of ?N "''10**400''" ?x "EInt (10 ^ 400)" _ _ _
      "Exn OverflowError ''int too large to convert to float''"] p c
  have 3: "evaluate_expression ?N ''10**400'' ?x
      = Inl (Exn OverflowError ''int too large to convert to float'')"
    by simp
  from 1 2 3 show ?thesis by (intro conjI)
qed

text \<open>
  The constant expression \<open>1\<close> over two sample points: the evaluator fails, where a
  broadcast would give the array of two ones.
\<close>

theorem constant_expression_fails:
  "evaluate_expression (compile_lib ''1'' (Constant (EInt 1))) ''1''
     (NdArray [2] [Fin 0, Fin 1])
   = Inl (Exn ValueError msg_shape)"
  by (simp add: eval_defs)

text \<open>
  C6. The evaluator returns an array only if its shape is that of the sample points (for
  arrays of one dimension: the same length) and every value of it is finite. When the
  result, as an array, has another shape it fails with the message of the shape check;
  when the shape is right and a value is an infinity or not-a-number it fails with the
  message of the finiteness check, which comes second; otherwise it returns the array.
\<close>

theorem evaluate_expression_checks:
  "(evaluate_expression L expression x = Inr y \<longrightarrow>
      nd_shape y = nd_shape x \<and> list_all isfinite (nd_data y))
   \<and> (builtin_eval L expression eval_globals eval_builtins (safe_locals x) = Inr raw
       \<and> as_array L raw = Inr a \<and> nd_shape a \<noteq> nd_shape x \<longrightarrow>
      evaluate_expression L expression x = Inl (Exn ValueError msg_shape))
   \<and> (builtin_eval L expression eval_globals eval_builtins (safe_locals x) = Inr raw
       \<and> as_array L raw = Inr a \<and> nd_shape a = nd_shape x
       \<and> \<not> list_all isfinite (nd_data a) \<longrightarrow>
      evaluate_expression L expression x = Inl (Exn ValueError msg_nonfinite))
   \<and> (builtin_eval L expression eval_globals eval_builtins (safe_locals x) = Inr raw
       \<and> as_array L raw = Inr a \<and> nd_shape a = nd_shape x
       \<and> list_all isfinite (nd_data a) \<longrightarrow>
      evaluate_expression L expression x = Inr a)"
proof -
  have 1: "evaluate_expression L expression x = Inr y \<longrightarrow>
      nd_shape y = nd_shape x \<and> list_all isfinite (nd_data y)"
    by (auto simp: evaluate_expression_def split: sum.splits if_splits)
  have 2: "builtin_eval L expression eval_globals eval_builtins (safe_locals x) = Inr raw
       \<and> as_array L raw = Inr a \<and> nd_shape a \<noteq> nd_shape x \<longrightarrow>
      evaluate_expression L expression x = Inl (Exn ValueError msg_shape)"
    by (simp add: evaluate_expression_def)
  have 3: "builtin_eval L expression eval_globals eval_builtins (safe_locals x) = Inr raw
       \<and> as_array L raw = Inr a \<and> nd_shape a = nd_shape x
       \<and> \<not> list_all isfinite (nd_data a) \<longrightarrow>
      evaluate_expression L expression x = Inl (Exn ValueError msg_nonfinite)"
    by (simp add: evaluate_expression_def)
  have 4: "builtin_eval L expression eval_globals eval_builtins (safe_locals x) = Inr raw
       \<and> as_array L raw = Inr a \<and> nd_shape a = nd_shape x
       \<and> list_all isfinite (nd_data a) \<longrightarrow>
      evaluate_expression L expression x = Inr a"
    by (simp add: evaluate_expression_def)
  from 1 2 3 4 show ?thesis by (intro conjI)
qed

text \<open>
  The expression \<open>1/x\<close> over \<open>-1, 0, 1\<close> divides by zero at the middle point and fails
  the finiteness check; over \<open>1, 2\<close> it returns \<open>1, 1/2\<close>; and \<open>x\<close> itself is returned.
\<close>

theorem evaluate_expression_checks_witness:
  "evaluate_expression
     (compile_lib ''1/x'' (BinOp (Constant (EInt 1)) Div (Name ''x''))) ''1/x''
     (NdArray [3] [Fin (- 1), Fin 0, Fin 1])
   = Inl (Exn ValueError msg_nonfinite)
   \<and> evaluate_expression
     (compile_lib ''1/x'' (BinOp (Constant (EInt 1)) Div (Name ''x''))) ''1/x''
     (NdArray [2] [Fin 1, Fin 2])
   = Inr (NdArray [2] [Fin 1, Fin (1 / 2)])
   \<and> nd_shape (NdArray [2] [Fin 1, Fin (1 / 2)]) = nd_shape (NdArray [2] [Fin 1, Fin 2])"
proof -
  let ?L = "compile_lib ''1/x'' (BinOp (Constant (EInt 1)) Div (Name ''x''))"
  let ?x = "NdArray [3] [Fin (- 1), Fin 0, Fin 1]"
  let ?z = "NdArray [2] [Fin 1, Fin 2]"
  have r: "builtin_eval ?L ''1/x'' eval_globals eval_builtins (safe_locals ?x)
      = Inr (EArray (NdArray [3] [Fin (- 1), PInf, Fin 1]))"
    by (simp add: eval_defs)
  from evaluate_expression_checks [of ?L "''1/x''" ?x "NdArray [3] [Fin (- 1), PInf, Fin 1]"
      "EArray (NdArray [3] [Fin (- 1), PInf, Fin 1])" "NdArray [3] [Fin (- 1), PInf, Fin 1]"] r
  have 1: "evaluate_expression ?L ''1/x'' ?x = Inl (Exn ValueError msg_nonfinite)"
    by (simp add: as_array_def)
  have q: "builtin_eval ?L ''1/x'' eval_globals eval_builtins (safe_locals ?z)
      = Inr (EArray (NdArray [2] [Fin 1, Fin (1 / 2)]))"
    by (simp add: eval_defs)
  from evaluate_expression_checks [of ?L "''1/x''" ?z "NdArray [2] [Fin 1, Fin (1 / 2)]"
      "EArray (NdArray [2] [Fin 1, Fin (1 / 2)])" "NdArray [2] [Fin 1, Fin (1 / 2)]"] q
  have 2: "evaluate_expression ?L ''1/x'' ?z = Inr (NdArray [2] [Fin 1, Fin (1 / 2)])"
    by (simp add: as_array_def)
  from 1 2 show ?thesis by simp
qed

end
